theory Spec2Isabelle
  imports Complex_Main
begin

section \<open>Python values used by the Snowflake profiler\<close>

text \<open>
  The module \<^verbatim>\<open>snowflake_profiler.py\<close> defines the class \<^verbatim>\<open>SnowflakeProfiler\<close>.
  Its methods are embedded below as HOL functions. Exceptions are values of
  \<open>py_error\<close>; a method that mutates \<^verbatim>\<open>self.config\<close> or \<^verbatim>\<open>self.report\<close>, logs, or
  calls a collaborator takes the profiler's state and returns the new one together
  with either the exception or the result.
\<close>

datatype py_error =
    KeyError string
  | AssertionError
  | ZeroDivisionError
  | OverflowError
  | DriverError string

subsection \<open>Truthiness\<close>

text \<open>
  \<^verbatim>\<open>not x\<close> and \<^verbatim>\<open>x and ...\<close> on an \<^verbatim>\<open>Optional[int]\<close>: \<^verbatim>\<open>None\<close> and \<^verbatim>\<open>0\<close> are false,
  every other integer is true. On an \<^verbatim>\<open>Optional[str]\<close>: \<^verbatim>\<open>None\<close> and the empty
  string are false.
\<close>

definition truthy_int :: "int option \<Rightarrow> bool" where
  "truthy_int v = (case v of None \<Rightarrow> False | Some n \<Rightarrow> n \<noteq> 0)"

definition truthy_str :: "string option \<Rightarrow> bool" where
  "truthy_str v = (case v of None \<Rightarrow> False | Some s \<Rightarrow> s \<noteq> [])"

subsection \<open>Floats: true division of integers and the format \<^verbatim>\<open>.8f\<close>\<close>

text \<open>
  A Python float is an IEEE 754 binary64 number. The only floats this module
  computes are quotients of two integers, so a float is modelled by its sign and
  its exact magnitude, a rational number.
\<close>

datatype py_float = PyFloat (is_negative: bool) (magnitude: rat)

text \<open>Rounding to the nearest integer, ties to the even one.\<close>

definition round_half_even :: "rat \<Rightarrow> int" where
  "round_half_even x =
     (let f = \<lfloor>x\<rfloor>; r = x - of_int f
      in if r < 1 / 2 then f
         else if 1 / 2 < r then f + 1
         else if even f then f else f + 1)"

text \<open>\<^verbatim>\<open>int.bit_length()\<close> of a non-negative integer.\<close>

function bit_length :: "int \<Rightarrow> int" where
  "bit_length n = (if n \<le> 0 then 0 else 1 + bit_length (n div 2))"
  by pat_completeness auto
termination
  by (relation "measure nat") auto

declare bit_length.simps [simp del]

text \<open>
  For positive integers \<open>n\<close> and \<open>d\<close>, the exponent \<open>e\<close> with
  \<open>2 ^ e \<le> n / d < 2 ^ (e + 1)\<close>.
\<close>

definition floor_log2 :: "int \<Rightarrow> int \<Rightarrow> int" where
  "floor_log2 n d =
     (let k = bit_length n - bit_length d
      in if (2::rat) powi k \<le> of_int n / of_int d then k else k - 1)"

text \<open>
  The binary64 number nearest to \<open>n / d\<close> (for \<open>n \<ge> 0\<close>, \<open>d > 0\<close>), ties to even:
  53 significant bits, the exponent not below that of the subnormal numbers.
\<close>

definition round_to_double :: "int \<Rightarrow> int \<Rightarrow> rat" where
  "round_to_double n d =
     (if n = 0 then 0
      else let e = max (floor_log2 n d) (- 1022);
               ulp = (2::rat) powi (e - 52)
           in of_int (round_half_even (of_int n / of_int d / ulp)) * ulp)"

text \<open>
  \<^verbatim>\<open>a / b\<close> on two \<^verbatim>\<open>int\<close>s: the correctly rounded quotient; \<^verbatim>\<open>ZeroDivisionError\<close>
  for \<^verbatim>\<open>b == 0\<close>, \<^verbatim>\<open>OverflowError\<close> when the rounded quotient is beyond the
  largest float. The sign is that of the exact quotient, also when the result is zero.
\<close>

definition py_truediv :: "int \<Rightarrow> int \<Rightarrow> py_error + py_float" where
  "py_truediv a b =
     (if b = 0 then Inl ZeroDivisionError
      else let m = round_to_double \<bar>a\<bar> \<bar>b\<bar>
           in if 2 ^ 1024 \<le> m then Inl OverflowError
              else Inr (PyFloat ((a < 0) \<noteq> (b < 0)) m))"

definition digit_char :: "int \<Rightarrow> char" where
  "digit_char d = char_of (48 + d)"

text \<open>\<^verbatim>\<open>str(n)\<close> for a non-negative integer.\<close>

function str_nat :: "int \<Rightarrow> string" where
  "str_nat n = (if n < 10 then [digit_char n] else str_nat (n div 10) @ [digit_char (n mod 10)])"
  by pat_completeness auto
termination
  by (relation "measure nat") auto

declare str_nat.simps [simp del]

text \<open>The last \<open>k\<close> decimal digits of \<open>n\<close>, with leading zeros.\<close>

fun zero_padded :: "nat \<Rightarrow> int \<Rightarrow> string" where
  "zero_padded 0 n = []"
| "zero_padded (Suc k) n = zero_padded k (n div 10) @ [digit_char (n mod 10)]"

text \<open>
  The numeral of \<open>n / 10 ^ 8\<close> for \<open>n \<ge> 0\<close>: all digits of the integer part, the
  point, and exactly 8 digits after it.

  \<^verbatim>\<open>f"{x:.8f}"\<close>: the float rounded to 8 digits after the point (the exact value of
  the float is rounded, ties to even), with a minus sign when the sign bit is set.
\<close>

definition decimal_8 :: "int \<Rightarrow> string" where
  "decimal_8 n = str_nat (n div 10 ^ 8) @ ''.'' @ zero_padded 8 (n mod 10 ^ 8)"

definition format_8f :: "py_float \<Rightarrow> string" where
  "format_8f x =
     (if is_negative x then ''-'' else '''')
     @ decimal_8 (round_half_even (magnitude x * 10 ^ 8))"

text \<open>Reading a string of decimal digits back as a number.\<close>

definition digit_value :: "char \<Rightarrow> int" where
  "digit_value c = of_char c - 48"

definition digits_value :: "string \<Rightarrow> int" where
  "digits_value s = foldl (\<lambda>a c. 10 * a + digit_value c) 0 s"

subsection \<open>Strings\<close>

text \<open>
  A Python string is modelled by its UTF-8 encoding, a list of bytes; it is written in
  ASCII when every byte is below 128.

  \<^verbatim>\<open>str.upper()\<close>: on a string written in ASCII the letters \<^verbatim>\<open>a\<close> to \<^verbatim>\<open>z\<close> become
  \<^verbatim>\<open>A\<close> to \<^verbatim>\<open>Z\<close> and every other character stays. On any other string the result
  is given by Python's Unicode case mapping, which is a parameter here.
\<close>

definition is_ascii_lower :: "char \<Rightarrow> bool" where
  "is_ascii_lower c = (97 \<le> (of_char c :: nat) \<and> (of_char c :: nat) \<le> 122)"

definition upper_char :: "char \<Rightarrow> char" where
  "upper_char c = (if is_ascii_lower c then char_of ((of_char c :: nat) - 32) else c)"

definition is_ascii :: "string \<Rightarrow> bool" where
  "is_ascii s = list_all (\<lambda>c. (of_char c :: nat) < 128) s"

definition upper :: "(string \<Rightarrow> string) \<Rightarrow> string \<Rightarrow> string" where
  "upper unicode_upper s = (if is_ascii s then map upper_char s else unicode_upper s)"

section \<open>Data model\<close>

text \<open>
  Modelled from the spec: the classes \<^verbatim>\<open>SnowflakeTable\<close> (a \<^verbatim>\<open>BaseTable\<close>),
  \<^verbatim>\<open>SnowflakeSchema\<close> and \<^verbatim>\<open>SnowflakeDatabase\<close> are declared in other modules. A
  table descriptor has a name, a kind and an optional row-count estimate; these are the
  fields this module reads (\<^verbatim>\<open>table.name\<close>, \<^verbatim>\<open>table.type\<close>, \<^verbatim>\<open>table.rows_count\<close>,
  \<^verbatim>\<open>schema.name\<close>, \<^verbatim>\<open>database.name\<close>, \<^verbatim>\<open>database.schemas\<close>).
\<close>

record SnowflakeTable =
  t_name :: string
  t_type :: string
  rows_count :: "int option"

record SnowflakeSchema =
  s_name :: string

record SnowflakeDatabase =
  d_name :: string
  schemas :: "SnowflakeSchema list"

text \<open>Values stored in keyword dictionaries and in the engine options.\<close>

datatype py_value = PyNone | PyBool bool | PyInt int | PyStr string

type_synonym py_dict = "string \<rightharpoonup> py_value"

text \<open>
  Modelled from the spec: the profiling configuration is declared in another module;
  the options this module reads are \<^verbatim>\<open>profile_external_tables: bool\<close>,
  \<^verbatim>\<open>use_sampling: bool\<close>, \<^verbatim>\<open>sample_size: number\<close>, \<^verbatim>\<open>limit: optional number\<close> and
  \<^verbatim>\<open>max_workers: int\<close>. The numbers are Python integers, of either sign.
\<close>

record GEProfilingConfig =
  profile_external_tables :: bool
  use_sampling :: bool
  sample_size :: int
  limit :: "int option"
  max_workers :: int

text \<open>
  \<^verbatim>\<open>SnowflakeV2Config\<close>. The field \<open>profiling_enabled\<close> is what
  \<^verbatim>\<open>config.is_profiling_enabled()\<close> answers.
\<close>

record SnowflakeV2Config =
  profiling :: GEProfilingConfig
  options :: py_dict
  profiling_enabled :: bool
  username :: "string option"
  password :: "string option"
  role :: "string option"

text \<open>
  Modelled from the spec: \<^verbatim>\<open>SnowflakeV2Report\<close> is declared in another module. It
  holds the skip counters keyed by schema, \<^verbatim>\<open>profiling_skipped_other\<close>, in which a key
  that is absent counts as 0, and it records the display names of the profiled tables:
  the names handed to \<^verbatim>\<open>report_entity_profiled\<close>, in the order of the calls.
\<close>

record SnowflakeV2Report =
  profiling_skipped_other :: "string \<rightharpoonup> int"
  entities_profiled :: "string list"

record TableProfilerRequest =
  pretty_name :: string
  req_table :: SnowflakeTable
  batch_kwargs :: py_dict

datatype log_level = DEBUG | INFO

text \<open>The arguments of one call of \<^verbatim>\<open>generate_profile_workunits\<close>.\<close>

record dispatch_call =
  dc_requests :: "TableProfilerRequest list"
  dc_max_workers :: int
  dc_db_name :: string
  dc_platform :: string
  dc_profiler_args :: py_dict

text \<open>A warehouse connection, with the statements executed on it so far.\<close>

record connection =
  session :: string
  executed :: "string list"

text \<open>
  The state of a \<^verbatim>\<open>SnowflakeProfiler\<close>: its configuration and report (both are
  mutated), the records written to the module's logger, the calls made to
  \<^verbatim>\<open>generate_profile_workunits\<close>, and the number of calls of
  \<^verbatim>\<open>config.get_connection()\<close>.
\<close>

record profiler_state =
  config :: SnowflakeV2Config
  report :: SnowflakeV2Report
  logged :: "(log_level \<times> string) list"
  dispatch_calls :: "dispatch_call list"
  connection_attempts :: nat

text \<open>
  What the class inherits or imports from other modules, taken as parameters:
  \<^item> \<^verbatim>\<open>GenericProfiler.get_profile_request\<close>, which may decline a table (\<^verbatim>\<open>None\<close>);
  \<^item> \<^verbatim>\<open>GenericProfiler.get_batch_kwargs\<close> (the \<^verbatim>\<open>super()\<close> call);
  \<^item> \<^verbatim>\<open>GenericProfiler.generate_profile_workunits\<close>, the batch execution;
  \<^item> \<^verbatim>\<open>self.platform\<close> and \<^verbatim>\<open>self.get_profile_args()\<close>;
  \<^item> \<^verbatim>\<open>config.get_connection()\<close> and \<^verbatim>\<open>config.get_sql_alchemy_url(...)\<close>;
  \<^item> \<^verbatim>\<open>SnowflakeQuery.use_database\<close>;
  \<^item> the warehouse's answer to a statement: an error, or none;
  \<^item> \<^verbatim>\<open>str.upper()\<close> on a string that is not written in ASCII.

  \<^verbatim>\<open>get_profile_request\<close> is taken as a function of its arguments; what it writes
  to the report on its own is outside this module and is not part of the state below.
\<close>

record 'wu collaborators =
  get_profile_request :: "SnowflakeTable \<Rightarrow> string \<Rightarrow> string \<Rightarrow> TableProfilerRequest option"
  super_get_batch_kwargs :: "SnowflakeTable \<Rightarrow> string \<Rightarrow> string \<Rightarrow> py_dict"
  generate_profile_workunits :: "dispatch_call \<Rightarrow> 'wu list"
  platform :: string
  get_profile_args :: py_dict
  get_connection :: "SnowflakeV2Config \<Rightarrow> py_error + connection"
  get_sql_alchemy_url ::
    "SnowflakeV2Config \<Rightarrow> string \<Rightarrow> string option \<Rightarrow> string option \<Rightarrow> string option \<Rightarrow> string"
  use_database :: "string \<Rightarrow> string"
  statement_error :: "connection \<Rightarrow> string \<Rightarrow> py_error option"
  unicode_upper :: "string \<Rightarrow> string"

section \<open>The methods of \<^verbatim>\<open>SnowflakeProfiler\<close>\<close>

subsection \<open>\<^verbatim>\<open>get_batch_kwargs\<close>\<close>

text \<open>
  The condition of the \<^verbatim>\<open>if\<close>: the operands of \<^verbatim>\<open>and\<close> are evaluated from the left,
  so the comparison is reached only with a row count that is an integer.
\<close>

definition use_custom_sql :: "GEProfilingConfig \<Rightarrow> SnowflakeTable \<Rightarrow> bool" where
  "use_custom_sql p table =
     (\<not> truthy_int (limit p) \<and> use_sampling p \<and> truthy_int (rows_count table)
      \<and> (case rows_count table of None \<Rightarrow> False | Some r \<Rightarrow> sample_size p < r))"

text \<open>The f-string that builds \<^verbatim>\<open>custom_sql\<close>.\<close>

definition sampling_query :: "string \<Rightarrow> string \<Rightarrow> string \<Rightarrow> py_float \<Rightarrow> string" where
  \<open>sampling_query db_name schema_name table_name sample_pc =
     ''select * from "'' @ db_name @ ''"."'' @ schema_name @ ''"."'' @ table_name
     @ ''" TABLESAMPLE ('' @ format_8f sample_pc @ '')''\<close>

text \<open>
  The value of the variable \<^verbatim>\<open>custom_sql\<close> before the \<^verbatim>\<open>return\<close>, or the exception
  of the division.
\<close>

definition custom_sql_of :: "GEProfilingConfig \<Rightarrow> SnowflakeTable \<Rightarrow> string \<Rightarrow> string
    \<Rightarrow> py_error + string option" where
  "custom_sql_of p table schema_name db_name =
     (if use_custom_sql p table then
        (case rows_count table of
           None \<Rightarrow> Inr None
         | Some r \<Rightarrow>
            (case py_truediv (100 * sample_size p) r of
               Inl e \<Rightarrow> Inl e
             | Inr sample_pc \<Rightarrow>
                 Inr (Some (sampling_query db_name schema_name (t_name table) sample_pc))))
      else Inr None)"

text \<open>
  The dictionary returned: the entries of the \<^verbatim>\<open>super()\<close> call, then
  \<^verbatim>\<open>use_quoted_name\<close> and \<^verbatim>\<open>custom_sql\<close>, which replace entries of the same keys.
\<close>

definition get_batch_kwargs ::
  "'wu collaborators \<Rightarrow> SnowflakeV2Config \<Rightarrow> SnowflakeTable \<Rightarrow> string \<Rightarrow> string
    \<Rightarrow> py_error + py_dict" where
  "get_batch_kwargs env cfg table schema_name db_name =
     (case custom_sql_of (profiling cfg) table schema_name db_name of
        Inl e \<Rightarrow> Inl e
      | Inr custom_sql \<Rightarrow>
          Inr ((super_get_batch_kwargs env table schema_name db_name)
                (''use_quoted_name'' \<mapsto>
                    PyBool (t_name table \<noteq> upper (unicode_upper env) (t_name table)),
                 ''custom_sql'' \<mapsto> (case custom_sql of None \<Rightarrow> PyNone | Some q \<Rightarrow> PyStr q))))"

subsection \<open>\<^verbatim>\<open>get_workunits\<close>\<close>

text \<open>\<^verbatim>\<open>options.setdefault(key, value)\<close>: a key that is present keeps its value.\<close>

definition setdefault :: "py_dict \<Rightarrow> string \<Rightarrow> py_value \<Rightarrow> py_dict" where
  "setdefault d k v = (case d k of None \<Rightarrow> d(k \<mapsto> v) | Some _ \<Rightarrow> d)"

text \<open>\<^verbatim>\<open>counter[key] += 1\<close> on a counter dictionary whose missing keys count as 0.\<close>

definition counter_get :: "(string \<rightharpoonup> int) \<Rightarrow> string \<Rightarrow> int" where
  "counter_get c k = (case c k of None \<Rightarrow> 0 | Some n \<Rightarrow> n)"

definition counter_incr :: "(string \<rightharpoonup> int) \<Rightarrow> string \<Rightarrow> (string \<rightharpoonup> int)" where
  "counter_incr c k = c(k \<mapsto> counter_get c k + 1)"

text \<open>The condition of the \<^verbatim>\<open>if\<close> in the inner loop, and the message it logs.\<close>

definition is_skipped_external :: "GEProfilingConfig \<Rightarrow> SnowflakeTable \<Rightarrow> bool" where
  "is_skipped_external p table =
     (\<not> profile_external_tables p \<and> t_type table = ''EXTERNAL TABLE'')"

definition skip_message :: "SnowflakeDatabase \<Rightarrow> SnowflakeSchema \<Rightarrow> SnowflakeTable \<Rightarrow> string" where
  "skip_message database schema table =
     ''Skipping profiling of external table '' @ d_name database @ ''.'' @ s_name schema
     @ ''.'' @ t_name table"

text \<open>
  The body of the inner loop, for one table: the state and the list
  \<^verbatim>\<open>profile_requests\<close> before, and after.
\<close>

definition collect_table ::
  "'wu collaborators \<Rightarrow> SnowflakeDatabase \<Rightarrow> SnowflakeSchema
    \<Rightarrow> profiler_state \<times> TableProfilerRequest list \<Rightarrow> SnowflakeTable
    \<Rightarrow> profiler_state \<times> TableProfilerRequest list" where
  "collect_table env database schema acc table =
     (case acc of (st, profile_requests) \<Rightarrow>
        if is_skipped_external (profiling (config st)) table then
          (st\<lparr>logged := logged st @ [(INFO, skip_message database schema table)],
              report := (report st)\<lparr>profiling_skipped_other :=
                 counter_incr (profiling_skipped_other (report st)) (s_name schema)\<rparr>\<rparr>,
           profile_requests)
        else
          (case get_profile_request env table (s_name schema) (d_name database) of
             None \<Rightarrow> (st, profile_requests)
           | Some profile_request \<Rightarrow>
               (st\<lparr>report := (report st)\<lparr>entities_profiled :=
                    entities_profiled (report st) @ [pretty_name profile_request]\<rparr>\<rparr>,
                profile_requests @ [profile_request])))"

text \<open>
  The outer loop over \<^verbatim>\<open>database.schemas\<close>. \<^verbatim>\<open>db_tables[schema.name]\<close> raises
  \<^verbatim>\<open>KeyError\<close> for a schema without an entry: the loop stops there, with what was
  done before.
\<close>

fun collect_schemas ::
  "'wu collaborators \<Rightarrow> SnowflakeDatabase \<Rightarrow> (string \<rightharpoonup> SnowflakeTable list)
    \<Rightarrow> SnowflakeSchema list \<Rightarrow> profiler_state \<times> TableProfilerRequest list
    \<Rightarrow> (profiler_state \<times> TableProfilerRequest list) \<times> py_error option" where
  "collect_schemas env database db_tables [] acc = (acc, None)"
| "collect_schemas env database db_tables (schema # rest) acc =
     (case db_tables (s_name schema) of
        None \<Rightarrow> (acc, Some (KeyError (s_name schema)))
      | Some tables \<Rightarrow>
          collect_schemas env database db_tables rest
            (foldl (collect_table env database schema) acc tables))"

text \<open>The first statement of \<^verbatim>\<open>get_workunits\<close>.\<close>

definition set_max_overflow :: "SnowflakeV2Config \<Rightarrow> SnowflakeV2Config" where
  "set_max_overflow cfg =
     (if profiling_enabled cfg
      then cfg\<lparr>options := setdefault (options cfg) ''max_overflow''
                    (PyInt (max_workers (profiling cfg)))\<rparr>
      else cfg)"

text \<open>The Collect phase: the first statement and the two loops.\<close>

definition collect ::
  "'wu collaborators \<Rightarrow> profiler_state \<Rightarrow> SnowflakeDatabase
    \<Rightarrow> (string \<rightharpoonup> SnowflakeTable list)
    \<Rightarrow> (profiler_state \<times> TableProfilerRequest list) \<times> py_error option" where
  "collect env st database db_tables =
     collect_schemas env database db_tables (schemas database)
       (st\<lparr>config := set_max_overflow (config st)\<rparr>, [])"

text \<open>
  \<^verbatim>\<open>get_workunits\<close>, run to its end: the state afterwards, and the exception raised
  or the work units yielded.
\<close>

definition get_workunits ::
  "'wu collaborators \<Rightarrow> profiler_state \<Rightarrow> SnowflakeDatabase
    \<Rightarrow> (string \<rightharpoonup> SnowflakeTable list) \<Rightarrow> profiler_state \<times> (py_error + 'wu list)" where
  "get_workunits env st database db_tables =
     (case collect env st database db_tables of
        ((st1, profile_requests), Some e) \<Rightarrow> (st1, Inl e)
      | ((st1, profile_requests), None) \<Rightarrow>
          if length profile_requests = 0 then (st1, Inr [])
          else
            let call = \<lparr>dc_requests = profile_requests,
                        dc_max_workers = max_workers (profiling (config st1)),
                        dc_db_name = d_name database,
                        dc_platform = platform env,
                        dc_profiler_args = get_profile_args env\<rparr>
            in (st1\<lparr>dispatch_calls := dispatch_calls st1 @ [call]\<rparr>,
                Inr (generate_profile_workunits env call)))"

subsection \<open>\<^verbatim>\<open>callable_for_db_connection\<close> and \<^verbatim>\<open>get_profiler_instance\<close>\<close>

text \<open>
  \<^verbatim>\<open>conn.cursor().execute(statement)\<close>: the warehouse refuses the statement, or the
  statement has been executed on the connection.
\<close>

definition cursor_execute ::
  "'wu collaborators \<Rightarrow> connection \<Rightarrow> string \<Rightarrow> py_error + connection" where
  "cursor_execute env conn statement =
     (case statement_error env conn statement of
        Some e \<Rightarrow> Inl e
      | None \<Rightarrow> Inr (conn\<lparr>executed := executed conn @ [statement]\<rparr>))"

text \<open>
  The closure \<^verbatim>\<open>get_db_connection\<close> that \<^verbatim>\<open>callable_for_db_connection(db_name)\<close>
  returns, as a function of the state in which it is called.
\<close>

definition callable_for_db_connection ::
  "'wu collaborators \<Rightarrow> string \<Rightarrow> profiler_state \<Rightarrow> profiler_state \<times> (py_error + connection)" where
  "callable_for_db_connection env db_name st =
     (let st1 = st\<lparr>connection_attempts := connection_attempts st + 1\<rparr>
      in (case get_connection env (config st) of
            Inl e \<Rightarrow> (st1, Inl e)
          | Inr conn \<Rightarrow> (st1, cursor_execute env conn (use_database env db_name))))"

text \<open>
  The \<^verbatim>\<open>DatahubGEProfiler\<close> that \<^verbatim>\<open>get_profiler_instance\<close> builds: its connection,
  its configuration and its platform.
\<close>

record DatahubGEProfiler =
  ge_conn :: connection
  ge_config :: GEProfilingConfig
  ge_platform :: string

text \<open>
  \<^verbatim>\<open>get_profiler_instance\<close>. The statement \<^verbatim>\<open>assert db_name\<close> is executed (the
  interpreter runs without \<^verbatim>\<open>-O\<close>). \<^verbatim>\<open>create_engine\<close> is given the closure as its
  \<^verbatim>\<open>creator\<close>, and \<^verbatim>\<open>engine.connect()\<close> calls it for the connection.
\<close>

definition get_profiler_instance ::
  "'wu collaborators \<Rightarrow> profiler_state \<Rightarrow> string option
    \<Rightarrow> profiler_state \<times> (py_error + DatahubGEProfiler)" where
  "get_profiler_instance env st db_name =
     (if \<not> truthy_str db_name then (st, Inl AssertionError)
      else case db_name of
        None \<Rightarrow> (st, Inl AssertionError)
      | Some name \<Rightarrow>
          let url = get_sql_alchemy_url env (config st) name
                      (username (config st)) (password (config st)) (role (config st));
              st1 = st\<lparr>logged := logged st @ [(DEBUG, ''sql_alchemy_url='' @ url)]\<rparr>
          in (case callable_for_db_connection env name st1 of
                (st2, Inl e) \<Rightarrow> (st2, Inl e)
              | (st2, Inr conn) \<Rightarrow>
                  (st2, Inr \<lparr>ge_conn = conn, ge_config = profiling (config st2),
                             ge_platform = platform env\<rparr>)))"

section \<open>The tables a pass visits\<close>

text \<open>
  The pairs of schema and table in the order in which the two loops of
  \<^verbatim>\<open>get_workunits\<close> reach them, when every schema has its entry in \<^verbatim>\<open>db_tables\<close>.
\<close>

definition table_visits ::
  "SnowflakeDatabase \<Rightarrow> (string \<rightharpoonup> SnowflakeTable list)
    \<Rightarrow> (SnowflakeSchema \<times> SnowflakeTable) list" where
  "table_visits database db_tables =
     concat (map (\<lambda>schema. case db_tables (s_name schema) of
                               None \<Rightarrow> []
                             | Some tables \<Rightarrow> map (Pair schema) tables)
                 (schemas database))"

text \<open>What the loop body does with one visited table.\<close>

datatype outcome = Skipped | Requested TableProfilerRequest | Declined

definition outcome_of ::
  "'wu collaborators \<Rightarrow> GEProfilingConfig \<Rightarrow> SnowflakeDatabase
    \<Rightarrow> SnowflakeSchema \<times> SnowflakeTable \<Rightarrow> outcome" where
  "outcome_of env p database visit =
     (case visit of (schema, table) \<Rightarrow>
        if is_skipped_external p table then Skipped
        else (case get_profile_request env table (s_name schema) (d_name database) of
                None \<Rightarrow> Declined
              | Some profile_request \<Rightarrow> Requested profile_request))"

text \<open>The requests among a list of outcomes, in order.\<close>

definition requests_of :: "outcome list \<Rightarrow> TableProfilerRequest list" where
  "requests_of os = concat (map (\<lambda>out. case out of Requested r \<Rightarrow> [r] | _ \<Rightarrow> []) os)"

text \<open>The number of visits under the schema name \<open>k\<close> that end as a recorded skip.\<close>

definition skips_under ::
  "'wu collaborators \<Rightarrow> GEProfilingConfig \<Rightarrow> SnowflakeDatabase \<Rightarrow> string
    \<Rightarrow> (SnowflakeSchema \<times> SnowflakeTable) list \<Rightarrow> nat" where
  "skips_under env p database k visits =
     length (filter (\<lambda>visit. s_name (fst visit) = k \<and> outcome_of env p database visit = Skipped)
               visits)"

text \<open>The log records of the skipped visits.\<close>

definition skip_records ::
  "'wu collaborators \<Rightarrow> GEProfilingConfig \<Rightarrow> SnowflakeDatabase
    \<Rightarrow> (SnowflakeSchema \<times> SnowflakeTable) list \<Rightarrow> (log_level \<times> string) list" where
  "skip_records env p database visits =
     map (\<lambda>visit. (INFO, skip_message database (fst visit) (snd visit)))
       (filter (\<lambda>visit. outcome_of env p database visit = Skipped) visits)"

text \<open>
  What the loops have done between two of their states, in terms of the outcomes of
  the tables visited in between.
\<close>

definition accounts_for ::
  "'wu collaborators \<Rightarrow> SnowflakeDatabase \<Rightarrow> (SnowflakeSchema \<times> SnowflakeTable) list
    \<Rightarrow> profiler_state \<times> TableProfilerRequest list
    \<Rightarrow> profiler_state \<times> TableProfilerRequest list \<Rightarrow> bool" where
  "accounts_for env database visits acc acc' =
     (let p = profiling (config (fst acc));
          new = requests_of (map (outcome_of env p database) visits)
      in config (fst acc') = config (fst acc)
         \<and> snd acc' = snd acc @ new
         \<and> entities_profiled (report (fst acc'))
             = entities_profiled (report (fst acc)) @ map pretty_name new
         \<and> logged (fst acc') = logged (fst acc) @ skip_records env p database visits
         \<and> (\<forall>k. counter_get (profiling_skipped_other (report (fst acc'))) k
                  = counter_get (profiling_skipped_other (report (fst acc))) k
                    + int (skips_under env p database k visits)))"





section \<open>Example inputs\<close>

definition example_profiling :: GEProfilingConfig where
  "example_profiling =
     \<lparr>profile_external_tables = False, use_sampling = True, sample_size = 10000,
      limit = None, max_workers = 10\<rparr>"

definition example_config :: SnowflakeV2Config where
  "example_config =
     \<lparr>profiling = example_profiling, options = Map.empty, profiling_enabled = True,
      username = Some ''user'', password = Some ''secret'', role = None\<rparr>"

definition example_state :: profiler_state where
  "example_state =
     \<lparr>config = example_config,
      report = \<lparr>profiling_skipped_other = Map.empty, entities_profiled = []\<rparr>,
      logged = [], dispatch_calls = [], connection_attempts = 0\<rparr>"

definition example_request :: "SnowflakeTable \<Rightarrow> string \<Rightarrow> string \<Rightarrow> TableProfilerRequest" where
  "example_request table schema_name db_name =
     \<lparr>pretty_name = db_name @ ''.'' @ schema_name @ ''.'' @ t_name table,
      req_table = table, batch_kwargs = Map.empty\<rparr>"

definition example_env :: "string collaborators" where
  \<open>example_env =
     \<lparr>get_profile_request = (\<lambda>table schema_name db_name.
         Some (example_request table schema_name db_name)),
      super_get_batch_kwargs = (\<lambda>table schema_name db_name.
         [''schema'' \<mapsto> PyStr schema_name, ''table'' \<mapsto> PyStr (t_name table)]),
      generate_profile_workunits = (\<lambda>call. map pretty_name (dc_requests call)),
      platform = ''snowflake'',
      get_profile_args = Map.empty,
      get_connection = (\<lambda>cfg. Inr \<lparr>session = ''session-1'', executed = []\<rparr>),
      get_sql_alchemy_url = (\<lambda>cfg db_name user pass role. ''snowflake://'' @ db_name),
      use_database = (\<lambda>db_name. ''use database "'' @ db_name @ ''"''),
      statement_error = (\<lambda>conn statement. None),
      unicode_upper = (\<lambda>name. name)\<rparr>\<close>

definition example_table :: "string \<Rightarrow> string \<Rightarrow> int option \<Rightarrow> SnowflakeTable" where
  "example_table name kind rows = \<lparr>t_name = name, t_type = kind, rows_count = rows\<rparr>"

definition example_database :: SnowflakeDatabase where
  "example_database = \<lparr>d_name = ''DB'', schemas = [\<lparr>s_name = ''PUBLIC''\<rparr>]\<rparr>"

definition example_tables :: "string \<rightharpoonup> SnowflakeTable list" where
  "example_tables =
     [''PUBLIC'' \<mapsto> [example_table ''EXT'' ''EXTERNAL TABLE'' (Some 7),
                       example_table ''T'' ''TABLE'' (Some 5)]]"

text \<open>Collaborators whose \<^verbatim>\<open>get_profile_request\<close> declines every table.\<close>

definition declining_env :: "string collaborators" where
  "declining_env = example_env\<lparr>get_profile_request := (\<lambda>table schema_name db_name. None)\<rparr>"



section \<open>Properties of the Python primitives\<close>

lemma truthy_int_simps [simp]:
  "truthy_int None = False" "truthy_int (Some n) = (n \<noteq> 0)"
  by (simp_all add: truthy_int_def)

subsection \<open>Rounding and the exponent of a quotient\<close>

lemma round_half_even_error: "\<bar>of_int (round_half_even x) - x\<bar> \<le> 1 / 2"
proof -
  have "of_int \<lfloor>x\<rfloor> \<le> x" "x < of_int \<lfloor>x\<rfloor> + 1"
    by linarith+
  then show ?thesis
    by (auto simp: round_half_even_def Let_def)
qed

lemma round_half_even_nonneg: "0 \<le> x \<Longrightarrow> 0 \<le> round_half_even x"
  by (auto simp: round_half_even_def Let_def intro: add_nonneg_nonneg)

lemma round_half_even_nearest: "\<bar>of_int (round_half_even x) - x\<bar> \<le> \<bar>of_int k - x\<bar>"
proof -
  have f: "of_int \<lfloor>x\<rfloor> \<le> x" "x < of_int \<lfloor>x\<rfloor> + 1"
    by linarith+
  have "k \<le> \<lfloor>x\<rfloor> \<or> \<lfloor>x\<rfloor> + 1 \<le> k" by linarith
  then have "(of_int k :: rat) \<le> of_int \<lfloor>x\<rfloor> \<or> (of_int \<lfloor>x\<rfloor> :: rat) + 1 \<le> of_int k"
    by (metis of_int_le_iff of_int_add of_int_1)
  with f show ?thesis
    by (auto simp: round_half_even_def Let_def)
qed

lemma round_half_even_le: "x \<le> of_int k \<Longrightarrow> round_half_even x \<le> k"
proof -
  assume a: "x \<le> of_int k"
  show ?thesis
  proof (cases "x = of_int k")
    case True
    then show ?thesis by (simp add: round_half_even_def Let_def)
  next
    case False
    with a have "x < of_int k" by simp
    then have "\<lfloor>x\<rfloor> < k" by (simp add: floor_less_iff)
    then show ?thesis by (auto simp: round_half_even_def Let_def)
  qed
qed

lemma bit_length_pos: "0 < n \<Longrightarrow> 1 \<le> bit_length n"
proof -
  assume "0 < n"
  moreover have "0 \<le> bit_length m" for m
  proof (induction m rule: bit_length.induct)
    case (1 n)
    then show ?case by (subst bit_length.simps) simp
  qed
  ultimately show ?thesis
    by (subst bit_length.simps) (simp add: add_increasing2)
qed

lemma bit_length_bounds:
  "0 < n \<Longrightarrow> 2 ^ nat (bit_length n - 1) \<le> n \<and> n < 2 ^ nat (bit_length n)"
proof (induction n rule: bit_length.induct)
  case (1 n)
  show ?case
  proof (cases "n = 1")
    case True
    have "bit_length 1 = 1"
      by (subst bit_length.simps, subst bit_length.simps) simp
    with True show ?thesis by simp
  next
    case False
    with "1.prems" have h: "0 < n div 2" by simp
    from "1.IH" "1.prems" h
    have ih: "2 ^ nat (bit_length (n div 2) - 1) \<le> n div 2" "n div 2 < 2 ^ nat (bit_length (n div 2))"
      by simp_all
    have bl: "bit_length n = 1 + bit_length (n div 2)"
      using "1.prems" by (subst bit_length.simps) simp
    have pos: "1 \<le> bit_length (n div 2)" using h by (rule bit_length_pos)
    have e1: "nat (bit_length n - 1) = Suc (nat (bit_length (n div 2) - 1))"
      using pos bl by simp
    have e2: "nat (bit_length n) = Suc (nat (bit_length (n div 2)))"
      using pos bl by simp
    have "2 * 2 ^ nat (bit_length (n div 2) - 1) \<le> n"
      using ih(1) by linarith
    moreover have "n < 2 * 2 ^ nat (bit_length (n div 2))"
      using ih(2) by linarith
    ultimately show ?thesis by (simp add: e1 e2)
  qed
qed

lemma floor_log2_bounds:
  assumes "0 < n" "0 < d"
  shows "(2::rat) powi (floor_log2 n d) \<le> of_int n / of_int d"
    and "of_int n / of_int d < (2::rat) powi (floor_log2 n d + 1)"
proof -
  define bn where "bn = bit_length n"
  define bd where "bd = bit_length d"
  define q :: rat where "q = of_int n / of_int d"
  have bn: "1 \<le> bn" and bd: "1 \<le> bd"
    using assms by (simp_all add: bn_def bd_def bit_length_pos)
  have n_lo: "(2::rat) powi (bn - 1) \<le> of_int n" and n_hi: "of_int n < (2::rat) powi bn"
  proof -
    from bit_length_bounds [OF assms(1)]
    have "(2::int) ^ nat (bn - 1) \<le> n" "n < (2::int) ^ nat bn"
      by (simp_all add: bn_def)
    then have "(of_int ((2::int) ^ nat (bn - 1)) :: rat) \<le> of_int n"
      "(of_int n :: rat) < of_int ((2::int) ^ nat bn)"
      by (simp_all only: of_int_le_iff of_int_less_iff)
    then show "(2::rat) powi (bn - 1) \<le> of_int n" "of_int n < (2::rat) powi bn"
      using bn by (simp_all add: power_int_nonneg_exp)
  qed
  have d_lo: "(2::rat) powi (bd - 1) \<le> of_int d" and d_hi: "of_int d < (2::rat) powi bd"
  proof -
    from bit_length_bounds [OF assms(2)]
    have "(2::int) ^ nat (bd - 1) \<le> d" "d < (2::int) ^ nat bd"
      by (simp_all add: bd_def)
    then have "(of_int ((2::int) ^ nat (bd - 1)) :: rat) \<le> of_int d"
      "(of_int d :: rat) < of_int ((2::int) ^ nat bd)"
      by (simp_all only: of_int_le_iff of_int_less_iff)
    then show "(2::rat) powi (bd - 1) \<le> of_int d" "of_int d < (2::rat) powi bd"
      using bd by (simp_all add: power_int_nonneg_exp)
  qed
  have dpos: "(0::rat) < of_int d" and npos: "(0::rat) < of_int n"
    using assms by simp_all
  have p_pos: "(0::rat) < 2 powi k" for k
    by simp
  have lo: "(2::rat) powi (bn - bd - 1) \<le> q"
  proof -
    have "(2::rat) powi (bn - bd - 1) = 2 powi (bn - 1) / 2 powi bd"
      by (simp add: power_int_diff [symmetric] algebra_simps)
    also have "\<dots> \<le> of_int n / 2 powi bd"
      using n_lo p_pos [of bd] by (simp add: divide_right_mono)
    also have "\<dots> \<le> of_int n / of_int d"
      using d_hi dpos npos by (simp add: frac_le)
    finally show ?thesis by (simp add: q_def)
  qed
  have hi: "q < (2::rat) powi (bn - bd + 1)"
  proof -
    have "q \<le> of_int n / 2 powi (bd - 1)"
      unfolding q_def using d_lo p_pos [of "bd - 1"] npos by (simp add: frac_le)
    also have "\<dots> < 2 powi bn / 2 powi (bd - 1)"
      using n_hi p_pos [of "bd - 1"] by (simp add: divide_strict_right_mono)
    also have "\<dots> = (2::rat) powi (bn - bd + 1)"
      by (simp add: power_int_diff [symmetric] algebra_simps)
    finally show ?thesis .
  qed
  show "(2::rat) powi (floor_log2 n d) \<le> of_int n / of_int d"
    using lo by (simp add: floor_log2_def Let_def bn_def bd_def q_def)
  show "of_int n / of_int d < (2::rat) powi (floor_log2 n d + 1)"
    using hi by (auto simp: floor_log2_def Let_def bn_def bd_def q_def not_le)
qed

text \<open>
  \<open>round_to_double\<close> yields a binary64 number: an integer not above \<open>2 ^ 53\<close> times
  a power of two whose exponent is not below that of the subnormal numbers. No binary64
  number is nearer to the quotient.
\<close>

lemma round_to_double_scaled:
  assumes "0 < n"
  shows "round_to_double n d
    = of_int (round_half_even (of_int n / of_int d / 2 powi (max (floor_log2 n d) (- 1022) - 52)))
      * 2 powi (max (floor_log2 n d) (- 1022) - 52)"
  using assms by (simp add: round_to_double_def Let_def)

lemma round_to_double_binary64:
  assumes "0 < n" "0 < d"
  shows "\<exists>m e. 0 \<le> m \<and> m \<le> 2 ^ 53 \<and> - 1074 \<le> e \<and> round_to_double n d = of_int m * 2 powi e"
proof -
  define q :: rat where "q = of_int n / of_int d"
  define E where "E = max (floor_log2 n d) (- 1022)"
  define ulp :: rat where "ulp = 2 powi (E - 52)"
  define R where "R = round_half_even (q / ulp)"
  have ulp_pos: "0 < ulp" by (simp add: ulp_def)
  have rd: "round_to_double n d = of_int R * ulp"
    unfolding R_def ulp_def E_def q_def using assms(1) by (rule round_to_double_scaled)
  have q0: "0 < q" using assms by (simp add: q_def)
  have "q < 2 powi (floor_log2 n d + 1)"
    unfolding q_def using assms by (rule floor_log2_bounds(2))
  also have "\<dots> \<le> 2 powi (E + 1)"
    by (intro power_int_increasing) (simp_all add: E_def)
  also have "\<dots> = 2 ^ 53 * ulp"
    by (simp add: ulp_def power_int_diff power_int_add)
  finally have "q / ulp < 2 ^ 53"
    using ulp_pos by (simp add: divide_less_eq)
  then have "q / ulp \<le> of_int (2 ^ 53)" by simp
  then have hi: "R \<le> 2 ^ 53" unfolding R_def by (rule round_half_even_le)
  have "0 \<le> q / ulp" using q0 ulp_pos by simp
  then have lo: "0 \<le> R" unfolding R_def by (rule round_half_even_nonneg)
  have "- 1074 \<le> E - 52" by (simp add: E_def)
  with lo hi rd show ?thesis unfolding ulp_def by blast
qed

lemma round_to_double_nearest:
  assumes "0 < n" "0 < d" and m: "0 \<le> m" "m < 2 ^ 53" and e: "- 1074 \<le> e"
  shows "\<bar>round_to_double n d - of_int n / of_int d\<bar>
      \<le> \<bar>of_int m * 2 powi e - of_int n / of_int d\<bar>"
proof -
  define q :: rat where "q = of_int n / of_int d"
  define E where "E = max (floor_log2 n d) (- 1022)"
  define ulp :: rat where "ulp = 2 powi (E - 52)"
  define R where "R = round_half_even (q / ulp)"
  have ulp_pos: "0 < ulp" by (simp add: ulp_def)
  have rd: "round_to_double n d = of_int R * ulp"
    unfolding R_def ulp_def E_def q_def using assms(1) by (rule round_to_double_scaled)
  have scale: "\<bar>of_int k * ulp - q\<bar> = \<bar>of_int k - q / ulp\<bar> * ulp" for k
  proof -
    have "of_int k * ulp - q = (of_int k - q / ulp) * ulp"
      using ulp_pos by (simp add: left_diff_distrib)
    then show ?thesis
      using ulp_pos by (simp only: abs_mult abs_of_pos)
  qed
  have near: "\<bar>of_int R * ulp - q\<bar> \<le> \<bar>of_int k * ulp - q\<bar>" for k
    unfolding scale R_def using ulp_pos round_half_even_nearest [of "q / ulp" k]
    by (simp add: mult_right_mono)
  show ?thesis
  proof (cases "E - 52 \<le> e")
    case True
    define k where "k = m * 2 ^ nat (e - (E - 52))"
    have "(2::rat) powi e = 2 powi (e - (E - 52)) * 2 powi (E - 52)"
      by (simp add: power_int_add [symmetric])
    also have "(2::rat) powi (e - (E - 52)) = 2 ^ nat (e - (E - 52))"
      using True by (simp add: power_int_def)
    finally have "of_int m * 2 powi e = of_int k * ulp"
      by (simp add: k_def ulp_def)
    with near [of k] show ?thesis
      by (simp add: rd q_def)
  next
    case False
    then have "- 1022 < E" using e by simp
    then have "E = floor_log2 n d" by (simp add: E_def max_def split: if_splits)
    with floor_log2_bounds(1) [OF assms(1,2)] have lo: "(2::rat) powi E \<le> q"
      by (simp add: q_def)
    have "(of_int m :: rat) < of_int (2 ^ 53)"
      using m(2) by (simp only: of_int_less_iff)
    then have "(of_int m :: rat) * 2 powi e < 2 ^ 53 * 2 powi e"
      by simp
    also have "\<dots> = 2 powi (e + 53)"
      by (simp add: power_int_add)
    also have "\<dots> \<le> 2 powi E"
      using False by (intro power_int_increasing) simp_all
    finally have y: "of_int m * 2 powi e < (2::rat) powi E" .
    have "(2::rat) powi E = 2 ^ 52 * ulp"
      by (simp add: ulp_def power_int_diff)
    then have "(2::rat) powi E = of_int (2 ^ 52) * ulp"
      by simp
    with near [of "2 ^ 52"] have "\<bar>of_int R * ulp - q\<bar> \<le> \<bar>2 powi E - q\<bar>"
      by simp
    also have "\<dots> < \<bar>of_int m * 2 powi e - q\<bar>"
      using lo y by linarith
    finally show ?thesis
      by (simp add: rd q_def)
  qed
qed

lemma round_to_double_error:
  assumes "0 < n" "0 < d" "of_int n / of_int d < (128::rat)"
  shows "\<bar>round_to_double n d - of_int n / of_int d\<bar> \<le> 1 / 2 ^ 47"
proof -
  define q :: rat where "q = of_int n / of_int d"
  define e where "e = max (floor_log2 n d) (- 1022)"
  define ulp :: rat where "ulp = 2 powi (e - 52)"
  have "floor_log2 n d < 7"
  proof (rule ccontr)
    assume "\<not> floor_log2 n d < 7"
    then have "(2::rat) powi 7 \<le> 2 powi floor_log2 n d"
      by (intro power_int_increasing) simp_all
    with floor_log2_bounds(1) [OF assms(1,2)] assms(3) show False by simp
  qed
  then have "e - 52 \<le> - 46" by (simp add: e_def)
  then have "ulp \<le> 2 powi (- 46)"
    unfolding ulp_def by (intro power_int_increasing) simp_all
  then have ulp_le: "ulp \<le> 1 / 2 ^ 46"
    by (simp add: power_int_minus divide_simps)
  have ulp_pos: "0 < ulp" by (simp add: ulp_def)
  have rd: "round_to_double n d = of_int (round_half_even (q / ulp)) * ulp"
    using assms(1) by (simp add: round_to_double_def Let_def q_def ulp_def e_def)
  have "of_int (round_half_even (q / ulp)) * ulp - q
      = (of_int (round_half_even (q / ulp)) - q / ulp) * ulp"
    using ulp_pos by (simp add: left_diff_distrib)
  then have "\<bar>of_int (round_half_even (q / ulp)) * ulp - q\<bar>
      = \<bar>of_int (round_half_even (q / ulp)) - q / ulp\<bar> * ulp"
    using ulp_pos by (simp only: abs_mult abs_of_pos)
  also have "\<dots> \<le> 1 / 2 * ulp"
    using round_half_even_error [of "q / ulp"] ulp_pos by (simp add: mult_right_mono)
  also have "\<dots> \<le> 1 / 2 * (1 / 2 ^ 46)"
    using ulp_le by simp
  finally show ?thesis by (simp add: rd q_def)
qed

lemma round_to_double_nonneg: "0 \<le> round_to_double n d" if "0 \<le> n" "0 < d"
proof (cases "n = 0")
  case True
  then show ?thesis by (simp add: round_to_double_def)
next
  case False
  have "0 \<le> (of_int n :: rat) / of_int d / 2 powi k" for k
    using that zero_less_power_int [of "2::rat" k] by (simp add: zero_le_divide_iff)
  then show ?thesis
    using False by (simp add: round_to_double_def Let_def round_half_even_nonneg)
qed

lemma round_to_double_close:
  assumes "0 \<le> n" "0 < d" "of_int n / of_int d < (128::rat)"
  shows "\<bar>round_to_double n d - of_int n / of_int d\<bar> \<le> 1 / 2 ^ 47"
proof (cases "n = 0")
  case True
  then show ?thesis by (simp add: round_to_double_def)
next
  case False
  with assms show ?thesis by (intro round_to_double_error) simp_all
qed

text \<open>
  A quotient below 128 of a non-negative by a positive integer is a float: the
  division does not overflow.
\<close>

lemma py_truediv_small:
  assumes "0 \<le> a" "0 < b" "of_int a / of_int b < (128::rat)"
  shows "py_truediv a b = Inr (PyFloat False (round_to_double a b))"
proof -
  have "round_to_double a b \<le> of_int a / of_int b + 1 / 2 ^ 47"
    using round_to_double_close [OF assms] by linarith
  also have "\<dots> < 128 + 1" using assms(3) by (intro add_strict_mono) simp_all
  also have "\<dots> \<le> (2::rat) ^ 8" by simp
  also have "\<dots> \<le> 2 ^ 1024" by (intro power_increasing) simp_all
  finally have "\<not> 2 ^ 1024 \<le> round_to_double a b" by simp
  then show ?thesis
    using assms(1,2) by (simp add: py_truediv_def Let_def)
qed

lemma sample_quotient_bound:
  assumes "0 \<le> s" "s < r"
  shows "of_int (100 * s) / of_int r < (100::rat)" "0 < r"
proof -
  show r: "0 < r" using assms by linarith
  have "(of_int (100 * s) :: rat) < of_int (100 * r)"
    using assms by simp
  then show "of_int (100 * s) / of_int r < (100::rat)"
    using r by (simp add: divide_less_eq)
qed

lemma py_truediv_sample:
  assumes "0 \<le> s" "s < r"
  shows "py_truediv (100 * s) r = Inr (PyFloat False (round_to_double (100 * s) r))"
  using sample_quotient_bound [OF assms] assms(1) by (intro py_truediv_small) simp_all

lemma format_8f_close:
  assumes "0 \<le> m" "\<bar>m - q\<bar> \<le> 1 / 2 ^ 47"
  shows "\<exists>n\<ge>0. format_8f (PyFloat False m) = decimal_8 n
          \<and> \<bar>of_int n / 10 ^ 8 - q\<bar> \<le> 1 / (2 * 10 ^ 8) + 1 / 2 ^ 47"
proof -
  define n where "n = round_half_even (m * 10 ^ 8)"
  have n0: "0 \<le> n" using assms(1) by (simp add: n_def round_half_even_nonneg)
  have "\<bar>of_int n - m * 10 ^ 8\<bar> \<le> 1 / 2"
    unfolding n_def by (rule round_half_even_error)
  then have "\<bar>of_int n / 10 ^ 8 - m\<bar> \<le> 1 / (2 * 10 ^ 8)"
    by (simp add: abs_le_iff field_simps)
  with assms(2) have "\<bar>of_int n / 10 ^ 8 - q\<bar> \<le> 1 / (2 * 10 ^ 8) + 1 / 2 ^ 47"
    by (simp only: abs_le_iff) linarith
  moreover have "format_8f (PyFloat False m) = decimal_8 n"
    by (simp add: format_8f_def n_def)
  ultimately show ?thesis using n0 by blast
qed

subsection \<open>Decimal numerals\<close>

lemma digit_value_digit_char: "0 \<le> d \<Longrightarrow> d < 10 \<Longrightarrow> digit_value (digit_char d) = d"
  by (simp add: digit_value_def digit_char_def)

lemma digits_value_snoc: "digits_value (s @ [c]) = 10 * digits_value s + digit_value c"
  by (simp add: digits_value_def)

lemma digits_value_str_nat: "0 \<le> n \<Longrightarrow> digits_value (str_nat n) = n"
proof (induction n rule: str_nat.induct)
  case (1 n)
  show ?case
  proof (cases "n < 10")
    case True
    with "1.prems" show ?thesis
      by (subst str_nat.simps) (simp add: digits_value_def digit_value_digit_char)
  next
    case False
    with "1.IH" "1.prems" have "digits_value (str_nat (n div 10)) = n div 10"
      by simp
    with False show ?thesis
      by (subst str_nat.simps) (simp add: digits_value_snoc digit_value_digit_char)
  qed
qed

lemma length_zero_padded: "length (zero_padded k n) = k"
  by (induction k arbitrary: n) simp_all

lemma digits_value_zero_padded:
  "0 \<le> n \<Longrightarrow> n < 10 ^ k \<Longrightarrow> digits_value (zero_padded k n) = n"
proof (induction k arbitrary: n)
  case 0
  then show ?case by (simp add: digits_value_def)
next
  case (Suc k)
  from Suc.prems have "0 \<le> n div 10" "n div 10 < 10 ^ k"
    by (simp_all add: div_less_iff_less_mult mult.commute)
  with Suc.IH have "digits_value (zero_padded k (n div 10)) = n div 10"
    by simp
  then show ?case
    by (simp add: digits_value_snoc digit_value_digit_char)
qed

lemma digit_char_values:
  "digit_char 0 = CHR ''0''" "digit_char 1 = CHR ''1''" "digit_char 2 = CHR ''2''"
  "digit_char 3 = CHR ''3''" "digit_char 4 = CHR ''4''" "digit_char 5 = CHR ''5''"
  "digit_char 6 = CHR ''6''" "digit_char 7 = CHR ''7''" "digit_char 8 = CHR ''8''"
  "digit_char 9 = CHR ''9''"
  by code_simp+

lemma digit_char_is_digit:
  assumes "0 \<le> d" "d < 10"
  shows "digit_char d \<in> set ''0123456789''"
proof -
  from assms have "d = 0 \<or> d = 1 \<or> d = 2 \<or> d = 3 \<or> d = 4 \<or> d = 5 \<or> d = 6 \<or> d = 7
      \<or> d = 8 \<or> d = 9"
    by arith
  then show ?thesis
    by (elim disjE) (simp_all add: digit_char_values)
qed

lemma str_nat_digits: "0 \<le> n \<Longrightarrow> set (str_nat n) \<subseteq> set ''0123456789''"
proof (induction n rule: str_nat.induct)
  case (1 n)
  show ?case
  proof (cases "n < 10")
    case True
    with "1.prems" digit_char_is_digit [of n] show ?thesis
      by (subst str_nat.simps) simp
  next
    case False
    with "1.IH" "1.prems" have "set (str_nat (n div 10)) \<subseteq> set ''0123456789''"
      by simp
    moreover have "digit_char (n mod 10) \<in> set ''0123456789''"
      by (intro digit_char_is_digit) simp_all
    ultimately show ?thesis
      using False by (subst str_nat.simps) simp
  qed
qed

lemma zero_padded_digits: "set (zero_padded k n) \<subseteq> set ''0123456789''"
proof (induction k arbitrary: n)
  case 0
  show ?case by simp
next
  case (Suc k)
  have "digit_char (n mod 10) \<in> set ''0123456789''"
    by (intro digit_char_is_digit) simp_all
  with Suc.IH [of "n div 10"] show ?case by simp
qed

lemma str_nat_nonempty: "str_nat n \<noteq> []"
  by (subst str_nat.simps) simp

lemma decimal_8_numeral:
  assumes "0 \<le> n"
  shows "\<exists>whole frac. decimal_8 n = whole @ ''.'' @ frac
      \<and> set (whole @ frac) \<subseteq> set ''0123456789'' \<and> whole \<noteq> [] \<and> length frac = 8
      \<and> (of_int n :: rat) / 10 ^ 8
          = of_int (digits_value whole) + of_int (digits_value frac) / 10 ^ 8"
proof -
  define whole where "whole = str_nat (n div 10 ^ 8)"
  define frac where "frac = zero_padded 8 (n mod 10 ^ 8)"
  have w: "digits_value whole = n div 10 ^ 8"
    unfolding whole_def using assms
    by (intro digits_value_str_nat) (simp add: pos_imp_zdiv_nonneg_iff)
  have f: "digits_value frac = n mod 10 ^ 8"
    unfolding frac_def by (intro digits_value_zero_padded) simp_all
  have "n = (n div 10 ^ 8) * 10 ^ 8 + n mod 10 ^ 8" by simp
  then have "(of_int n :: rat) = of_int (n div 10 ^ 8) * 10 ^ 8 + of_int (n mod 10 ^ 8)"
    by (metis of_int_add of_int_mult of_int_numeral of_int_power)
  then have v: "(of_int n :: rat) / 10 ^ 8
      = of_int (digits_value whole) + of_int (digits_value frac) / 10 ^ 8"
    by (simp add: field_simps w f)
  have "0 \<le> n div 10 ^ 8" using assms by (simp add: pos_imp_zdiv_nonneg_iff)
  then have d: "set (whole @ frac) \<subseteq> set ''0123456789''"
    using str_nat_digits [of "n div 10 ^ 8"] zero_padded_digits [of 8 "n mod 10 ^ 8"]
    unfolding whole_def frac_def by (simp only: set_append Un_subset_iff)
  have "decimal_8 n = whole @ ''.'' @ frac"
    by (simp add: decimal_8_def whole_def frac_def)
  moreover have "whole \<noteq> []" by (simp add: whole_def str_nat_nonempty)
  moreover have "length frac = 8" by (simp add: frac_def length_zero_padded)
  ultimately show ?thesis using v d by blast
qed

subsection \<open>Upper case\<close>

lemma upper_char_fixed: "upper_char c = c \<longleftrightarrow> \<not> is_ascii_lower c"
proof (cases "is_ascii_lower c")
  case False
  then show ?thesis by (simp add: upper_char_def)
next
  case True
  then have b: "97 \<le> (of_char c :: nat)" "(of_char c :: nat) \<le> 122"
    by (simp_all add: is_ascii_lower_def)
  have "of_char (char_of ((of_char c :: nat) - 32)) = ((of_char c :: nat) - 32)"
    using b by simp
  then have "(of_char (upper_char c) :: nat) \<noteq> of_char c"
    using True b by (simp add: upper_char_def)
  then show ?thesis using True by auto
qed

lemma map_upper_char_fixed:
  "map upper_char s = s \<longleftrightarrow> (\<forall>c \<in> set s. \<not> is_ascii_lower c)"
  by (induction s) (auto simp: upper_char_fixed)

lemma upper_ascii: "is_ascii s \<Longrightarrow> upper u s = map upper_char s"
  by (simp add: upper_def)

lemma upper_fixed:
  "is_ascii s \<Longrightarrow> upper u s = s \<longleftrightarrow> (\<forall>c \<in> set s. \<not> is_ascii_lower c)"
  by (simp add: upper_ascii map_upper_char_fixed)

lemma is_ascii_examples: "is_ascii ''t_lower''" "is_ascii ''T_UPPER''" "is_ascii ''T''" "is_ascii ''t''"
  by code_simp+

lemma map_upper_char_examples:
  "map upper_char ''t_lower'' = ''T_LOWER''" "map upper_char ''T_UPPER'' = ''T_UPPER''"
  "map upper_char ''T'' = ''T''" "map upper_char ''t'' = ''T''"
  by code_simp+

lemma upper_examples:
  "upper u ''t_lower'' = ''T_LOWER''" "upper u ''T_UPPER'' = ''T_UPPER''"
  "upper u ''T'' = ''T''" "upper u ''t'' = ''T''"
  using upper_ascii [OF is_ascii_examples(1), of u] upper_ascii [OF is_ascii_examples(2), of u]
    upper_ascii [OF is_ascii_examples(3), of u] upper_ascii [OF is_ascii_examples(4), of u]
  by (simp_all only: map_upper_char_examples)

section \<open>The batch parameters of a request\<close>

lemma use_custom_sql_iff:
  "use_custom_sql p table
    \<longleftrightarrow> \<not> (rows_count table = None \<or> rows_count table = Some 0
               \<or> (\<exists>r. rows_count table = Some r \<and> r \<le> sample_size p)
               \<or> \<not> use_sampling p
               \<or> (\<exists>n. limit p = Some n \<and> n \<noteq> 0))"
  by (cases "rows_count table"; cases "limit p") (auto simp: use_custom_sql_def)

lemma get_batch_kwargs_unsampled:
  assumes "\<not> use_custom_sql (profiling cfg) table"
  shows "get_batch_kwargs env cfg table schema_name db_name
    = Inr ((super_get_batch_kwargs env table schema_name db_name)
           (''use_quoted_name'' \<mapsto>
              PyBool (t_name table \<noteq> upper (unicode_upper env) (t_name table)),
            ''custom_sql'' \<mapsto> PyNone))"
  using assms by (simp add: get_batch_kwargs_def custom_sql_of_def)

lemma get_batch_kwargs_sampled:
  assumes "use_custom_sql (profiling cfg) table" and "rows_count table = Some r"
  shows "get_batch_kwargs env cfg table schema_name db_name
    = (case py_truediv (100 * sample_size (profiling cfg)) r of
         Inl e \<Rightarrow> Inl e
       | Inr sample_pc \<Rightarrow>
           Inr ((super_get_batch_kwargs env table schema_name db_name)
                 (''use_quoted_name'' \<mapsto>
                    PyBool (t_name table \<noteq> upper (unicode_upper env) (t_name table)),
                  ''custom_sql'' \<mapsto>
                    PyStr (sampling_query db_name schema_name (t_name table) sample_pc))))"
  using assms by (simp add: get_batch_kwargs_def custom_sql_of_def split: sum.splits)

text \<open>
  With a sample size that is not negative the division does not overflow, and
  \<^verbatim>\<open>get_batch_kwargs\<close> returns.
\<close>

lemma get_batch_kwargs_returns:
  assumes "0 \<le> sample_size (profiling cfg)"
  shows "\<exists>kw. get_batch_kwargs env cfg table schema_name db_name = Inr kw"
proof (cases "use_custom_sql (profiling cfg) table")
  case False
  then show ?thesis by (simp add: get_batch_kwargs_unsampled)
next
  case True
  then obtain r where r: "rows_count table = Some r" "sample_size (profiling cfg) < r"
    by (auto simp: use_custom_sql_def split: option.splits)
  from get_batch_kwargs_sampled [OF True r(1), of env schema_name db_name]
    py_truediv_sample [OF assms r(2)]
  show ?thesis by simp
qed

lemma round_to_double_examples:
  "round_to_double 1000000 1000000 = 1"
  "round_to_double 1000000 20000 = 50"
  by code_simp+

lemma format_8f_examples:
  "format_8f (PyFloat False 1) = ''1.00000000''"
  "format_8f (PyFloat False 50) = ''50.00000000''"
  by code_simp+

lemma example_sampled:
  \<open>get_batch_kwargs example_env (example_config\<lparr>profiling := example_profiling\<lparr>limit := l\<rparr>\<rparr>)
      (example_table ''T'' ''TABLE'' (Some 1000000)) ''PUBLIC'' ''DB''
    = Inr [''schema'' \<mapsto> PyStr ''PUBLIC'', ''table'' \<mapsto> PyStr ''T'',
           ''use_quoted_name'' \<mapsto> PyBool (\<not> True),
           ''custom_sql'' \<mapsto> (if truthy_int l then PyNone else
               PyStr ''select * from "DB"."PUBLIC"."T" TABLESAMPLE (1.00000000)'')]\<close>
proof (cases "truthy_int l")
  case True
  then have "\<not> use_custom_sql (profiling (example_config\<lparr>profiling := example_profiling\<lparr>limit := l\<rparr>\<rparr>))
      (example_table ''T'' ''TABLE'' (Some 1000000))"
    by (simp add: use_custom_sql_def)
  from get_batch_kwargs_unsampled [OF this, of example_env "''PUBLIC''" "''DB''"] True
  show ?thesis
    by (simp add: example_env_def example_table_def upper_examples)
next
  case False
  then have u: "use_custom_sql (profiling (example_config\<lparr>profiling := example_profiling\<lparr>limit := l\<rparr>\<rparr>))
      (example_table ''T'' ''TABLE'' (Some 1000000))"
    by (simp add: use_custom_sql_def example_profiling_def example_table_def)
  have r: "rows_count (example_table ''T'' ''TABLE'' (Some 1000000)) = Some 1000000"
    by (simp add: example_table_def)
  have "py_truediv (100 * 10000) 1000000 = Inr (PyFloat False (round_to_double (100 * 10000) 1000000))"
    by (rule py_truediv_sample) simp_all
  with get_batch_kwargs_sampled [OF u r, of example_env "''PUBLIC''" "''DB''"] False
  show ?thesis
    by (simp add: example_env_def example_table_def example_profiling_def upper_examples
        sampling_query_def round_to_double_examples format_8f_examples)
qed

text \<open>
  C2 as stated does not hold: the fraction is the rendering of the float, not of the
  quotient. For 71,153,866,679 rows and a sample size of 1,000,000 the quotient
  \<open>100 * sample_size / row_count\<close> is nearer to 0.00140541 than to 0.00140540, and the
  fraction in the query is \<^verbatim>\<open>0.00140540\<close>: the float is just below the midpoint.
\<close>

theorem sampling_fraction_counterexample:
  \<open>get_batch_kwargs example_env
      (example_config\<lparr>profiling := example_profiling\<lparr>sample_size := 1000000\<rparr>\<rparr>)
      (example_table ''T'' ''TABLE'' (Some 71153866679)) ''PUBLIC'' ''DB''
    = Inr [''schema'' \<mapsto> PyStr ''PUBLIC'', ''table'' \<mapsto> PyStr ''T'',
           ''use_quoted_name'' \<mapsto> PyBool False,
           ''custom_sql'' \<mapsto>
               PyStr ''select * from "DB"."PUBLIC"."T" TABLESAMPLE (0.00140540)'']
   \<and> \<bar>100 * 1000000 / 71153866679 - 140541 / 10 ^ 8\<bar>
       < \<bar>100 * 1000000 / 71153866679 - 140540 / 10 ^ 8 :: rat\<bar>\<close>
proof -
  let ?cfg = "example_config\<lparr>profiling := example_profiling\<lparr>sample_size := 1000000\<rparr>\<rparr>"
  let ?table = "example_table ''T'' ''TABLE'' (Some 71153866679)"
  have u: "use_custom_sql (profiling ?cfg) ?table"
    by (simp add: use_custom_sql_def example_profiling_def example_table_def)
  have r: "rows_count ?table = Some 71153866679"
    by (simp add: example_table_def)
  have d: "py_truediv (100 * 1000000) 71153866679
      = Inr (PyFloat False (round_to_double (100 * 1000000) 71153866679))"
    by (rule py_truediv_sample) simp_all
  have f: "format_8f (PyFloat False (round_to_double 100000000 71153866679))
      = ''0.00140540''"
    by code_simp
  have q: "\<bar>100 * 1000000 / 71153866679 - 140541 / 10 ^ 8\<bar>
       < \<bar>100 * 1000000 / 71153866679 - 140540 / 10 ^ 8 :: rat\<bar>"
    by simp
  from get_batch_kwargs_sampled [OF u r, of example_env "''PUBLIC''" "''DB''"] d
  have \<open>get_batch_kwargs example_env ?cfg ?table ''PUBLIC'' ''DB''
    = Inr [''schema'' \<mapsto> PyStr ''PUBLIC'', ''table'' \<mapsto> PyStr ''T'',
           ''use_quoted_name'' \<mapsto> PyBool False,
           ''custom_sql'' \<mapsto>
               PyStr ''select * from "DB"."PUBLIC"."T" TABLESAMPLE (0.00140540)'']\<close>
    by (simp add: example_env_def example_table_def upper_examples sampling_query_def f)
  from this q show ?thesis by (rule conjI)
qed

text \<open>
  C2, amended. For a table with a known row count that is not zero and is above the
  configured sample size, with sampling switched on and no fixed limit configured,
  \<^verbatim>\<open>get_batch_kwargs\<close> raises the exception of the float division, or returns batch
  parameters whose \<^verbatim>\<open>custom_sql\<close> is a \<^verbatim>\<open>TABLESAMPLE\<close> query over the double-quoted
  path of database, schema and table; the sampling fraction in it is the float
  \<^verbatim>\<open>100 * sample_size / rows_count\<close>, the quotient rounded to the nearest binary64
  number, in the format \<^verbatim>\<open>.8f\<close>. With a sample size that is not negative the division
  raises nothing, the fraction is the rendering of that binary64 number, a decimal
  numeral with exactly 8 digits after the point, and its value is the quotient up to
  half a unit of the last digit and the rounding of the division (at most \<open>2 ^ -47\<close>).
  For 1,000,000 rows and a sample size of 10,000 the fraction is \<^verbatim>\<open>1.00000000\<close>.
\<close>

theorem sampling_fraction:
  assumes "limit (profiling cfg) = None"
    and "use_sampling (profiling cfg)"
    and "rows_count table = Some r"
    and "sample_size (profiling cfg) < r"
  shows \<open>(r \<noteq> 0 \<longrightarrow>
        get_batch_kwargs env cfg table schema_name db_name
        = (case py_truediv (100 * sample_size (profiling cfg)) r of
             Inl e \<Rightarrow> Inl e
           | Inr sample_pc \<Rightarrow>
               Inr ((super_get_batch_kwargs env table schema_name db_name)
                     (''use_quoted_name'' \<mapsto>
                        PyBool (t_name table \<noteq> upper (unicode_upper env) (t_name table)),
                      ''custom_sql'' \<mapsto> PyStr
                        (''select * from "'' @ db_name @ ''"."'' @ schema_name @ ''"."''
                         @ t_name table @ ''" TABLESAMPLE ('' @ format_8f sample_pc @ '')'')))))
    \<and> (0 \<le> sample_size (profiling cfg) \<longrightarrow>
        (\<exists>whole frac.
           py_truediv (100 * sample_size (profiling cfg)) r
             = Inr (PyFloat False (round_to_double (100 * sample_size (profiling cfg)) r))
         \<and> format_8f (PyFloat False (round_to_double (100 * sample_size (profiling cfg)) r))
             = whole @ ''.'' @ frac
         \<and> get_batch_kwargs env cfg table schema_name db_name
             = Inr ((super_get_batch_kwargs env table schema_name db_name)
                     (''use_quoted_name'' \<mapsto>
                        PyBool (t_name table \<noteq> upper (unicode_upper env) (t_name table)),
                      ''custom_sql'' \<mapsto> PyStr
                        (''select * from "'' @ db_name @ ''"."'' @ schema_name @ ''"."''
                         @ t_name table @ ''" TABLESAMPLE ('' @ whole @ ''.'' @ frac @ '')'')))
         \<and> set (whole @ frac) \<subseteq> set ''0123456789'' \<and> whole \<noteq> [] \<and> length frac = 8
         \<and> \<bar>of_int (digits_value whole) + of_int (digits_value frac) / 10 ^ 8
              - 100 * of_int (sample_size (profiling cfg)) / of_int r\<bar>
             \<le> (1 / (2 * 10 ^ 8) + 1 / 2 ^ 47 :: rat)))\<close>
proof (intro conjI impI)
  assume "r \<noteq> 0"
  with assms have "use_custom_sql (profiling cfg) table"
    by (simp add: use_custom_sql_def)
  from get_batch_kwargs_sampled [OF this assms(3), of env schema_name db_name]
  show \<open>get_batch_kwargs env cfg table schema_name db_name
        = (case py_truediv (100 * sample_size (profiling cfg)) r of
             Inl e \<Rightarrow> Inl e
           | Inr sample_pc \<Rightarrow>
               Inr ((super_get_batch_kwargs env table schema_name db_name)
                     (''use_quoted_name'' \<mapsto>
                        PyBool (t_name table \<noteq> upper (unicode_upper env) (t_name table)),
                      ''custom_sql'' \<mapsto> PyStr
                        (''select * from "'' @ db_name @ ''"."'' @ schema_name @ ''"."''
                         @ t_name table @ ''" TABLESAMPLE ('' @ format_8f sample_pc @ '')''))))\<close>
    unfolding sampling_query_def .
next
  define s where "s = sample_size (profiling cfg)"
  define m where "m = round_to_double (100 * s) r"
  assume "0 \<le> sample_size (profiling cfg)"
  then have s0: "0 \<le> s" by (simp add: s_def)
  have sr: "s < r" using assms(4) by (simp add: s_def)
  have sampled: "use_custom_sql (profiling cfg) table"
    using assms s0 sr by (simp add: use_custom_sql_def s_def)
  have q: "of_int (100 * s) / of_int r < (128::rat)" and r: "0 < r"
    using sample_quotient_bound [OF s0 sr] by simp_all
  have div: "py_truediv (100 * s) r = Inr (PyFloat False m)"
    unfolding m_def using s0 sr by (rule py_truediv_sample)
  have m0: "0 \<le> m"
    unfolding m_def using r s0 by (intro round_to_double_nonneg) simp_all
  have "\<bar>m - of_int (100 * s) / of_int r\<bar> \<le> 1 / 2 ^ 47"
    unfolding m_def using r q s0 by (intro round_to_double_close) simp_all
  then have "\<bar>m - 100 * of_int s / of_int r\<bar> \<le> 1 / 2 ^ 47"
    by simp
  from format_8f_close [OF m0 this] obtain n where n: "0 \<le> n"
    "format_8f (PyFloat False m) = decimal_8 n"
    "\<bar>of_int n / 10 ^ 8 - 100 * of_int s / of_int r\<bar> \<le> (1 / (2 * 10 ^ 8) + 1 / 2 ^ 47 :: rat)"
    by blast
  from decimal_8_numeral [OF n(1)] obtain whole frac where d:
    "decimal_8 n = whole @ ''.'' @ frac" "set (whole @ frac) \<subseteq> set ''0123456789''"
    "whole \<noteq> []" "length frac = 8"
    "(of_int n :: rat) / 10 ^ 8 = of_int (digits_value whole) + of_int (digits_value frac) / 10 ^ 8"
    by blast
  have f: "format_8f (PyFloat False m) = whole @ ''.'' @ frac"
    by (simp only: n(2) d(1))
  have k: \<open>get_batch_kwargs env cfg table schema_name db_name
             = Inr ((super_get_batch_kwargs env table schema_name db_name)
                     (''use_quoted_name'' \<mapsto>
                        PyBool (t_name table \<noteq> upper (unicode_upper env) (t_name table)),
                      ''custom_sql'' \<mapsto> PyStr
                        (''select * from "'' @ db_name @ ''"."'' @ schema_name @ ''"."''
                         @ t_name table @ ''" TABLESAMPLE ('' @ whole @ ''.'' @ frac @ '')'')))\<close>
    using get_batch_kwargs_sampled [OF sampled assms(3), of env schema_name db_name] div
    by (simp add: s_def [symmetric] sampling_query_def f)
  have b: "\<bar>of_int (digits_value whole) + of_int (digits_value frac) / 10 ^ 8
           - 100 * of_int s / of_int r\<bar> \<le> (1 / (2 * 10 ^ 8) + 1 / 2 ^ 47 :: rat)"
    using n(3) by (simp only: d(5))
  from div f k d(2,3,4) b
  show \<open>\<exists>whole frac.
           py_truediv (100 * sample_size (profiling cfg)) r
             = Inr (PyFloat False (round_to_double (100 * sample_size (profiling cfg)) r))
         \<and> format_8f (PyFloat False (round_to_double (100 * sample_size (profiling cfg)) r))
             = whole @ ''.'' @ frac
         \<and> get_batch_kwargs env cfg table schema_name db_name
             = Inr ((super_get_batch_kwargs env table schema_name db_name)
                     (''use_quoted_name'' \<mapsto>
                        PyBool (t_name table \<noteq> upper (unicode_upper env) (t_name table)),
                      ''custom_sql'' \<mapsto> PyStr
                        (''select * from "'' @ db_name @ ''"."'' @ schema_name @ ''"."''
                         @ t_name table @ ''" TABLESAMPLE ('' @ whole @ ''.'' @ frac @ '')'')))
         \<and> set (whole @ frac) \<subseteq> set ''0123456789'' \<and> whole \<noteq> [] \<and> length frac = 8
         \<and> \<bar>of_int (digits_value whole) + of_int (digits_value frac) / 10 ^ 8
              - 100 * of_int (sample_size (profiling cfg)) / of_int r\<bar>
             \<le> (1 / (2 * 10 ^ 8) + 1 / 2 ^ 47 :: rat)\<close>
    unfolding m_def s_def by blast
qed

theorem sampling_fraction_witness:
  \<open>limit (profiling example_config) = None \<and> use_sampling (profiling example_config)
   \<and> rows_count (example_table ''T'' ''TABLE'' (Some 1000000)) = Some 1000000
   \<and> sample_size (profiling example_config) < 1000000
   \<and> (1000000::int) \<noteq> 0 \<and> 0 \<le> sample_size (profiling example_config)
   \<and> get_batch_kwargs example_env example_config
        (example_table ''T'' ''TABLE'' (Some 1000000)) ''PUBLIC'' ''DB''
      = Inr [''schema'' \<mapsto> PyStr ''PUBLIC'', ''table'' \<mapsto> PyStr ''T'',
           ''use_quoted_name'' \<mapsto> PyBool False,
           ''custom_sql'' \<mapsto>
               PyStr ''select * from "DB"."PUBLIC"."T" TABLESAMPLE (1.00000000)'']\<close>
proof -
  have h: "limit (profiling example_config) = None" "use_sampling (profiling example_config)"
    "rows_count (example_table ''T'' ''TABLE'' (Some 1000000)) = Some 1000000"
    "sample_size (profiling example_config) < 1000000"
    by (simp_all add: example_config_def example_profiling_def example_table_def)
  have s: "0 \<le> sample_size (profiling example_config)"
    by (simp add: example_config_def example_profiling_def)
  from sampling_fraction [OF h, of example_env "''PUBLIC''" "''DB''"] s
  obtain kw where "get_batch_kwargs example_env example_config
        (example_table ''T'' ''TABLE'' (Some 1000000)) ''PUBLIC'' ''DB'' = Inr kw"
    by blast
  moreover have "example_config\<lparr>profiling := example_profiling\<lparr>limit := None\<rparr>\<rparr> = example_config"
    by (simp add: example_config_def example_profiling_def)
  ultimately show ?thesis
    using h s example_sampled [of None] by simp
qed

text \<open>
  C3 as stated does not hold: a fixed limit of 0 is configured, and the sampling query
  is produced all the same, because \<^verbatim>\<open>not limit\<close> is true for 0.
\<close>

theorem fixed_limit_counterexample:
  \<open>limit (profiling (example_config\<lparr>profiling := example_profiling\<lparr>limit := Some 0\<rparr>\<rparr>)) = Some 0
   \<and> get_batch_kwargs example_env (example_config\<lparr>profiling := example_profiling\<lparr>limit := Some 0\<rparr>\<rparr>)
        (example_table ''T'' ''TABLE'' (Some 1000000)) ''PUBLIC'' ''DB''
      = Inr [''schema'' \<mapsto> PyStr ''PUBLIC'', ''table'' \<mapsto> PyStr ''T'',
           ''use_quoted_name'' \<mapsto> PyBool False,
           ''custom_sql'' \<mapsto>
               PyStr ''select * from "DB"."PUBLIC"."T" TABLESAMPLE (1.00000000)'']\<close>
  using example_sampled [of "Some 0"] by simp

text \<open>
  C3, amended. With a fixed limit that is configured and not 0, \<^verbatim>\<open>get_batch_kwargs\<close>
  produces no sampling query, whatever the row count and the sampling switch are.
\<close>

theorem fixed_limit_disables_sampling:
  assumes "limit (profiling cfg) = Some n" and "n \<noteq> 0"
  shows "get_batch_kwargs env cfg table schema_name db_name
    = Inr ((super_get_batch_kwargs env table schema_name db_name)
           (''use_quoted_name'' \<mapsto>
              PyBool (t_name table \<noteq> upper (unicode_upper env) (t_name table)),
            ''custom_sql'' \<mapsto> PyNone))"
  using assms by (intro get_batch_kwargs_unsampled) (simp add: use_custom_sql_def)

theorem fixed_limit_disables_sampling_witness:
  \<open>limit (profiling (example_config\<lparr>profiling := example_profiling\<lparr>limit := Some 500\<rparr>\<rparr>)) = Some 500
   \<and> (500::int) \<noteq> 0
   \<and> get_batch_kwargs example_env (example_config\<lparr>profiling := example_profiling\<lparr>limit := Some 500\<rparr>\<rparr>)
        (example_table ''T'' ''TABLE'' (Some 1000000)) ''PUBLIC'' ''DB''
      = Inr [''schema'' \<mapsto> PyStr ''PUBLIC'', ''table'' \<mapsto> PyStr ''T'',
           ''use_quoted_name'' \<mapsto> PyBool False, ''custom_sql'' \<mapsto> PyNone]\<close>
proof -
  let ?cfg = "example_config\<lparr>profiling := example_profiling\<lparr>limit := Some 500\<rparr>\<rparr>"
  have h: "limit (profiling ?cfg) = Some 500" "(500::int) \<noteq> 0"
    by simp_all
  from fixed_limit_disables_sampling [OF h, of example_env "example_table ''T'' ''TABLE'' (Some 1000000)"
      "''PUBLIC''" "''DB''"]
  show ?thesis
    by (simp add: example_env_def example_table_def upper_examples)
qed

text \<open>
  C5. The batch parameters that \<^verbatim>\<open>get_batch_kwargs\<close> produces carry, under
  \<^verbatim>\<open>use_quoted_name\<close>, whether the table's name differs from its upper-cased form: the
  flag is false exactly for a name that is its own upper-cased form, and for a name
  written in ASCII that is a name without a lower-case letter.
\<close>

theorem quoted_name_flag:
  assumes "get_batch_kwargs env cfg table schema_name db_name = Inr kw"
  shows "kw ''use_quoted_name''
           = Some (PyBool (t_name table \<noteq> upper (unicode_upper env) (t_name table)))
     \<and> (kw ''use_quoted_name'' = Some (PyBool False)
          \<longleftrightarrow> upper (unicode_upper env) (t_name table) = t_name table)
     \<and> (is_ascii (t_name table) \<longrightarrow>
          (kw ''use_quoted_name'' = Some (PyBool False)
            \<longleftrightarrow> (\<forall>c \<in> set (t_name table). \<not> is_ascii_lower c)))"
proof -
  from assms have flag: "kw ''use_quoted_name''
      = Some (PyBool (t_name table \<noteq> upper (unicode_upper env) (t_name table)))"
    by (auto simp: get_batch_kwargs_def split: sum.splits)
  then have eq: "kw ''use_quoted_name'' = Some (PyBool False)
      \<longleftrightarrow> upper (unicode_upper env) (t_name table) = t_name table"
    by auto
  have "kw ''use_quoted_name'' = Some (PyBool False)
      \<longleftrightarrow> (\<forall>c \<in> set (t_name table). \<not> is_ascii_lower c)"
    if "is_ascii (t_name table)"
    using upper_fixed [OF that, of "unicode_upper env"] eq by simp
  with flag eq show ?thesis by blast
qed

theorem quoted_name_flag_witness:
  "get_batch_kwargs example_env example_config (example_table ''t_lower'' ''TABLE'' None)
      ''PUBLIC'' ''DB''
    = Inr [''schema'' \<mapsto> PyStr ''PUBLIC'', ''table'' \<mapsto> PyStr ''t_lower'',
           ''use_quoted_name'' \<mapsto> PyBool True, ''custom_sql'' \<mapsto> PyNone]
   \<and> get_batch_kwargs example_env example_config (example_table ''T_UPPER'' ''TABLE'' None)
      ''PUBLIC'' ''DB''
    = Inr [''schema'' \<mapsto> PyStr ''PUBLIC'', ''table'' \<mapsto> PyStr ''T_UPPER'',
           ''use_quoted_name'' \<mapsto> PyBool False, ''custom_sql'' \<mapsto> PyNone]
   \<and> is_ascii (t_name (example_table ''t_lower'' ''TABLE'' None))"
proof -
  have u: "\<not> use_custom_sql (profiling example_config) (example_table name ''TABLE'' None)"
    for name
    by (simp add: use_custom_sql_def example_table_def)
  have a: "get_batch_kwargs example_env example_config (example_table ''t_lower'' ''TABLE'' None)
      ''PUBLIC'' ''DB''
    = Inr [''schema'' \<mapsto> PyStr ''PUBLIC'', ''table'' \<mapsto> PyStr ''t_lower'',
           ''use_quoted_name'' \<mapsto> PyBool True, ''custom_sql'' \<mapsto> PyNone]"
    using get_batch_kwargs_unsampled [OF u, of example_env "''t_lower''" "''PUBLIC''" "''DB''"]
    by (simp add: example_env_def example_table_def upper_examples)
  have b: "get_batch_kwargs example_env example_config (example_table ''T_UPPER'' ''TABLE'' None)
      ''PUBLIC'' ''DB''
    = Inr [''schema'' \<mapsto> PyStr ''PUBLIC'', ''table'' \<mapsto> PyStr ''T_UPPER'',
           ''use_quoted_name'' \<mapsto> PyBool False, ''custom_sql'' \<mapsto> PyNone]"
    using get_batch_kwargs_unsampled [OF u, of example_env "''T_UPPER''" "''PUBLIC''" "''DB''"]
    by (simp add: example_env_def example_table_def upper_examples)
  have c: "is_ascii (t_name (example_table ''t_lower'' ''TABLE'' None))"
    by (simp add: example_table_def is_ascii_examples)
  from quoted_name_flag [OF a] a b c show ?thesis by simp
qed

text \<open>
  C8 as stated does not hold: with a fixed limit configured as 0 (and sampling on, 20,000
  rows, a sample size of 10,000) the sampling query is set.
\<close>

theorem custom_sql_unset_counterexample:
  \<open>limit (profiling (example_config\<lparr>profiling := example_profiling\<lparr>limit := Some 0\<rparr>\<rparr>)) \<noteq> None
   \<and> get_batch_kwargs example_env (example_config\<lparr>profiling := example_profiling\<lparr>limit := Some 0\<rparr>\<rparr>)
        (example_table ''t'' ''TABLE'' (Some 20000)) ''PUBLIC'' ''DB''
      = Inr [''schema'' \<mapsto> PyStr ''PUBLIC'', ''table'' \<mapsto> PyStr ''t'',
           ''use_quoted_name'' \<mapsto> PyBool True,
           ''custom_sql'' \<mapsto>
               PyStr ''select * from "DB"."PUBLIC"."t" TABLESAMPLE (50.00000000)'']\<close>
proof -
  let ?cfg = "example_config\<lparr>profiling := example_profiling\<lparr>limit := Some 0\<rparr>\<rparr>"
  let ?table = "example_table ''t'' ''TABLE'' (Some 20000)"
  have u: "use_custom_sql (profiling ?cfg) ?table"
    by (simp add: use_custom_sql_def example_profiling_def example_table_def)
  have r: "rows_count ?table = Some 20000"
    by (simp add: example_table_def)
  have "py_truediv (100 * 10000) 20000 = Inr (PyFloat False (round_to_double (100 * 10000) 20000))"
    by (rule py_truediv_sample) simp_all
  with get_batch_kwargs_sampled [OF u r, of example_env "''PUBLIC''" "''DB''"]
  show ?thesis
    by (simp add: example_env_def example_table_def example_profiling_def upper_examples
        sampling_query_def round_to_double_examples format_8f_examples)
qed

text \<open>
  C8, amended. \<^verbatim>\<open>get_batch_kwargs\<close> leaves \<^verbatim>\<open>custom_sql\<close> unset (\<^verbatim>\<open>None\<close>) exactly
  when no sampling plan applies: the row count is missing or zero, or it does not
  exceed the sample size, or sampling is switched off, or a fixed limit other than 0 is
  configured. With a sample size that is not negative it returns in every case.
\<close>

theorem custom_sql_unset:
  "((\<exists>kw. get_batch_kwargs env cfg table schema_name db_name = Inr kw
         \<and> kw ''custom_sql'' = Some PyNone)
     \<longleftrightarrow> (rows_count table = None \<or> rows_count table = Some 0
          \<or> (\<exists>r. rows_count table = Some r \<and> r \<le> sample_size (profiling cfg))
          \<or> \<not> use_sampling (profiling cfg)
          \<or> (\<exists>n. limit (profiling cfg) = Some n \<and> n \<noteq> 0)))
   \<and> (0 \<le> sample_size (profiling cfg) \<longrightarrow>
        (\<exists>kw. get_batch_kwargs env cfg table schema_name db_name = Inr kw
           \<and> (kw ''custom_sql'' = Some PyNone
                \<longleftrightarrow> (rows_count table = None \<or> rows_count table = Some 0
                     \<or> (\<exists>r. rows_count table = Some r \<and> r \<le> sample_size (profiling cfg))
                     \<or> \<not> use_sampling (profiling cfg)
                     \<or> (\<exists>n. limit (profiling cfg) = Some n \<and> n \<noteq> 0)))))"
proof -
  define unsampled where "unsampled \<longleftrightarrow>
    (rows_count table = None \<or> rows_count table = Some 0
      \<or> (\<exists>r. rows_count table = Some r \<and> r \<le> sample_size (profiling cfg))
      \<or> \<not> use_sampling (profiling cfg)
      \<or> (\<exists>n. limit (profiling cfg) = Some n \<and> n \<noteq> 0))"
  have u: "use_custom_sql (profiling cfg) table \<longleftrightarrow> \<not> unsampled"
    unfolding unsampled_def by (rule use_custom_sql_iff)
  have none: "kw ''custom_sql'' = Some PyNone \<longleftrightarrow> unsampled"
    if "get_batch_kwargs env cfg table schema_name db_name = Inr kw" for kw
  proof (cases unsampled)
    case True
    with u get_batch_kwargs_unsampled [of cfg table env schema_name db_name] that
    show ?thesis by auto
  next
    case False
    with u obtain r where "rows_count table = Some r"
      by (auto simp: use_custom_sql_def split: option.splits)
    with u False get_batch_kwargs_sampled [of cfg table r env schema_name db_name] that
    show ?thesis by (auto split: sum.splits)
  qed
  have ret: "\<exists>kw. get_batch_kwargs env cfg table schema_name db_name = Inr kw" if unsampled
    using that u get_batch_kwargs_unsampled [of cfg table env schema_name db_name] by simp
  have a: "(\<exists>kw. get_batch_kwargs env cfg table schema_name db_name = Inr kw
         \<and> kw ''custom_sql'' = Some PyNone) \<longleftrightarrow> unsampled"
    using none ret by blast
  have b: "\<exists>kw. get_batch_kwargs env cfg table schema_name db_name = Inr kw
           \<and> (kw ''custom_sql'' = Some PyNone \<longleftrightarrow> unsampled)"
    if "0 \<le> sample_size (profiling cfg)"
    using get_batch_kwargs_returns [OF that, of env table schema_name db_name] none by blast
  from a b show ?thesis unfolding unsampled_def by blast
qed

theorem custom_sql_unset_witness:
  \<open>get_batch_kwargs example_env example_config (example_table ''T'' ''TABLE'' (Some 0)) ''PUBLIC'' ''DB''
      = Inr [''schema'' \<mapsto> PyStr ''PUBLIC'', ''table'' \<mapsto> PyStr ''T'',
           ''use_quoted_name'' \<mapsto> PyBool False, ''custom_sql'' \<mapsto> PyNone]
   \<and> rows_count (example_table ''T'' ''TABLE'' (Some 0)) = Some 0
   \<and> 0 \<le> sample_size (profiling example_config)\<close>
proof -
  have u: "\<not> use_custom_sql (profiling example_config) (example_table ''T'' ''TABLE'' (Some 0))"
    by (simp add: use_custom_sql_def example_table_def)
  have k: \<open>get_batch_kwargs example_env example_config (example_table ''T'' ''TABLE'' (Some 0))
      ''PUBLIC'' ''DB''
      = Inr [''schema'' \<mapsto> PyStr ''PUBLIC'', ''table'' \<mapsto> PyStr ''T'',
           ''use_quoted_name'' \<mapsto> PyBool False, ''custom_sql'' \<mapsto> PyNone]\<close>
    using get_batch_kwargs_unsampled [OF u, of example_env "''PUBLIC''" "''DB''"]
    by (simp add: example_env_def example_table_def upper_examples)
  have s: "0 \<le> sample_size (profiling example_config)"
    by (simp add: example_config_def example_profiling_def)
  from custom_sql_unset [of example_env example_config "example_table ''T'' ''TABLE'' (Some 0)"
      "''PUBLIC''" "''DB''"] s
  have "\<exists>kw. get_batch_kwargs example_env example_config
      (example_table ''T'' ''TABLE'' (Some 0)) ''PUBLIC'' ''DB'' = Inr kw"
    by blast
  with k s show ?thesis by (simp add: example_table_def)
qed

section \<open>One pass of \<^verbatim>\<open>get_workunits\<close>\<close>

subsection \<open>What the loops leave alone\<close>

lemma collect_table_frame:
  "config (fst (collect_table env database schema acc table)) = config (fst acc)"
  "dispatch_calls (fst (collect_table env database schema acc table)) = dispatch_calls (fst acc)"
  "connection_attempts (fst (collect_table env database schema acc table))
     = connection_attempts (fst acc)"
  by (simp_all add: collect_table_def split: prod.splits option.splits)

lemma foldl_collect_table_frame:
  "config (fst (foldl (collect_table env database schema) acc tables)) = config (fst acc)"
  "dispatch_calls (fst (foldl (collect_table env database schema) acc tables))
     = dispatch_calls (fst acc)"
  "connection_attempts (fst (foldl (collect_table env database schema) acc tables))
     = connection_attempts (fst acc)"
  by (induction tables arbitrary: acc) (simp_all add: collect_table_frame)

lemma collect_schemas_frame:
  "config (fst (fst (collect_schemas env database db_tables ss acc))) = config (fst acc)"
  "dispatch_calls (fst (fst (collect_schemas env database db_tables ss acc)))
     = dispatch_calls (fst acc)"
  "connection_attempts (fst (fst (collect_schemas env database db_tables ss acc)))
     = connection_attempts (fst acc)"
  by (induction ss arbitrary: acc)
     (simp_all add: foldl_collect_table_frame split: option.splits)

lemma collect_frame:
  "config (fst (fst (collect env st database db_tables))) = set_max_overflow (config st)"
  "dispatch_calls (fst (fst (collect env st database db_tables))) = dispatch_calls st"
  "connection_attempts (fst (fst (collect env st database db_tables))) = connection_attempts st"
  by (simp_all add: collect_def collect_schemas_frame)

lemma get_workunits_config:
  "config (fst (get_workunits env st database db_tables)) = set_max_overflow (config st)"
  using collect_frame(1) [of env st database db_tables]
  by (auto simp: get_workunits_def Let_def split: prod.splits option.splits)

lemma profiling_set_max_overflow [simp]: "profiling (set_max_overflow cfg) = profiling cfg"
  by (simp add: set_max_overflow_def)

text \<open>
  C7 as stated does not hold: with \<^verbatim>\<open>max_overflow\<close> configured as 1 and 10 workers,
  \<^verbatim>\<open>setdefault\<close> keeps the 1.
\<close>

theorem max_overflow_counterexample:
  "profiling_enabled (config (example_state\<lparr>config :=
       example_config\<lparr>options := [''max_overflow'' \<mapsto> PyInt 1]\<rparr>\<rparr>))
   \<and> max_workers (profiling (config (example_state\<lparr>config :=
       example_config\<lparr>options := [''max_overflow'' \<mapsto> PyInt 1]\<rparr>\<rparr>))) = 10
   \<and> options (config (fst (get_workunits example_env
        (example_state\<lparr>config := example_config\<lparr>options := [''max_overflow'' \<mapsto> PyInt 1]\<rparr>\<rparr>)
        example_database example_tables))) ''max_overflow'' = Some (PyInt 1)"
  by (simp add: get_workunits_config set_max_overflow_def setdefault_def example_config_def
      example_profiling_def)

text \<open>
  C7, amended. When profiling is enabled, \<^verbatim>\<open>get_workunits\<close> gives \<^verbatim>\<open>max_overflow\<close>
  the value of \<^verbatim>\<open>profiling.max_workers\<close> if the engine options have no
  \<^verbatim>\<open>max_overflow\<close> yet, and leaves a configured \<^verbatim>\<open>max_overflow\<close> as it is.
\<close>

theorem max_overflow_default:
  assumes "profiling_enabled (config st)"
  shows "options (config (fst (get_workunits env st database db_tables))) ''max_overflow''
    = Some (case options (config st) ''max_overflow'' of
              None \<Rightarrow> PyInt (max_workers (profiling (config st)))
            | Some v \<Rightarrow> v)"
  using assms
  by (simp add: get_workunits_config set_max_overflow_def setdefault_def split: option.splits)

theorem max_overflow_default_witness:
  "profiling_enabled (config example_state)
   \<and> options (config example_state) ''max_overflow'' = None
   \<and> options (config (fst (get_workunits example_env example_state example_database
        example_tables))) ''max_overflow'' = Some (PyInt 10)"
proof -
  have h: "profiling_enabled (config example_state)"
    by (simp add: example_state_def example_config_def)
  from max_overflow_default [OF h, of example_env example_database example_tables] h
  show ?thesis
    by (simp add: example_state_def example_config_def example_profiling_def)
qed

text \<open>
  C6. When the list of pending requests is empty after the Collect phase,
  \<^verbatim>\<open>get_workunits\<close> yields no work unit and does not call
  \<^verbatim>\<open>generate_profile_workunits\<close>.
\<close>

theorem empty_requests_no_dispatch:
  assumes "collect env st database db_tables = ((st1, []), None)"
  shows "get_workunits env st database db_tables = (st1, Inr [])
       \<and> dispatch_calls st1 = dispatch_calls st"
  using assms collect_frame(2) [of env st database db_tables]
  by (simp add: get_workunits_def)

theorem empty_requests_no_dispatch_witness:
  "collect example_env example_state example_database
      [''PUBLIC'' \<mapsto> [example_table ''EXT'' ''EXTERNAL TABLE'' None]]
     = ((example_state
          \<lparr>config := example_config\<lparr>options := [''max_overflow'' \<mapsto> PyInt 10]\<rparr>,
           report := \<lparr>profiling_skipped_other = [''PUBLIC'' \<mapsto> 1], entities_profiled = []\<rparr>,
           logged := [(INFO, ''Skipping profiling of external table DB.PUBLIC.EXT'')]\<rparr>, []), None)
   \<and> get_workunits example_env example_state example_database
      [''PUBLIC'' \<mapsto> [example_table ''EXT'' ''EXTERNAL TABLE'' None]]
     = (example_state
          \<lparr>config := example_config\<lparr>options := [''max_overflow'' \<mapsto> PyInt 10]\<rparr>,
           report := \<lparr>profiling_skipped_other = [''PUBLIC'' \<mapsto> 1], entities_profiled = []\<rparr>,
           logged := [(INFO, ''Skipping profiling of external table DB.PUBLIC.EXT'')]\<rparr>, Inr [])
   \<and> dispatch_calls example_state = []"
proof -
  let ?st1 = "example_state
          \<lparr>config := example_config\<lparr>options := [''max_overflow'' \<mapsto> PyInt 10]\<rparr>,
           report := \<lparr>profiling_skipped_other = [''PUBLIC'' \<mapsto> 1], entities_profiled = []\<rparr>,
           logged := [(INFO, ''Skipping profiling of external table DB.PUBLIC.EXT'')]\<rparr>"
  have h: "collect example_env example_state example_database
      [''PUBLIC'' \<mapsto> [example_table ''EXT'' ''EXTERNAL TABLE'' None]] = ((?st1, []), None)"
    by (simp add: collect_def example_database_def collect_table_def
      is_skipped_external_def example_state_def example_config_def example_profiling_def
      example_table_def set_max_overflow_def setdefault_def
      counter_incr_def counter_get_def skip_message_def)
  have "dispatch_calls example_state = []" by (simp add: example_state_def)
  with empty_requests_no_dispatch [OF h] h show ?thesis by simp
qed

subsection \<open>The outcome of every visited table\<close>

lemma requests_of_simps [simp]:
  "requests_of [] = []"
  "requests_of (Skipped # os) = requests_of os"
  "requests_of (Declined # os) = requests_of os"
  "requests_of (Requested r # os) = r # requests_of os"
  "requests_of (xs @ ys) = requests_of xs @ requests_of ys"
  by (simp_all add: requests_of_def)

lemma skips_under_simps [simp]:
  "skips_under env p database k [] = 0"
  "skips_under env p database k (visit # visits) =
     (if s_name (fst visit) = k \<and> outcome_of env p database visit = Skipped then 1 else 0)
     + skips_under env p database k visits"
  "skips_under env p database k (xs @ ys) =
     skips_under env p database k xs + skips_under env p database k ys"
  by (simp_all add: skips_under_def)

lemma skip_records_simps [simp]:
  "skip_records env p database [] = []"
  "skip_records env p database (xs @ ys) =
     skip_records env p database xs @ skip_records env p database ys"
  by (simp_all add: skip_records_def)

lemma counter_get_incr:
  "counter_get (counter_incr c k) k' = counter_get c k' + (if k' = k then 1 else 0)"
  by (simp add: counter_get_def counter_incr_def)

lemma accounts_for_Nil: "accounts_for env database [] acc acc"
  by (simp add: accounts_for_def)

lemma accounts_for_append:
  assumes "accounts_for env database xs a b" and "accounts_for env database ys b c"
  shows "accounts_for env database (xs @ ys) a c"
  using assms by (simp add: accounts_for_def Let_def)

lemma accounts_for_table:
  "accounts_for env database [(schema, table)] acc (collect_table env database schema acc table)"
  by (cases acc)
     (auto simp: accounts_for_def collect_table_def outcome_of_def counter_get_incr
        skip_records_def split: option.splits)

lemma accounts_for_tables:
  "accounts_for env database (map (Pair schema) tables) acc
     (foldl (collect_table env database schema) acc tables)"
proof (induction tables arbitrary: acc)
  case Nil
  show ?case by (simp add: accounts_for_Nil)
next
  case (Cons table tables)
  from accounts_for_append [OF accounts_for_table Cons.IH]
  show ?case by simp
qed

lemma accounts_for_schemas:
  assumes "snd (collect_schemas env database db_tables ss acc) = None"
  shows "accounts_for env database
           (concat (map (\<lambda>schema. case db_tables (s_name schema) of
                                     None \<Rightarrow> []
                                   | Some tables \<Rightarrow> map (Pair schema) tables) ss))
           acc (fst (collect_schemas env database db_tables ss acc))"
  using assms
proof (induction ss arbitrary: acc)
  case Nil
  show ?case by (simp add: accounts_for_Nil)
next
  case (Cons schema ss)
  from Cons.prems obtain tables where t: "db_tables (s_name schema) = Some tables"
    by (cases "db_tables (s_name schema)") simp_all
  let ?acc1 = "foldl (collect_table env database schema) acc tables"
  have "snd (collect_schemas env database db_tables ss ?acc1) = None"
    using Cons.prems t by simp
  from accounts_for_append [OF accounts_for_tables Cons.IH [OF this]]
  show ?case by (simp add: t)
qed

lemma collect_schemas_returns:
  "snd (collect_schemas env database db_tables ss acc) = None
    \<longleftrightarrow> (\<forall>schema \<in> set ss. db_tables (s_name schema) \<noteq> None)"
  by (induction ss arbitrary: acc) (auto split: option.splits)

lemma accounts_for_collect:
  assumes "\<forall>schema \<in> set (schemas database). db_tables (s_name schema) \<noteq> None"
  shows "snd (collect env st database db_tables) = None"
    and "accounts_for env database (table_visits database db_tables)
           (st\<lparr>config := set_max_overflow (config st)\<rparr>, [])
           (fst (collect env st database db_tables))"
proof -
  show none: "snd (collect env st database db_tables) = None"
    using assms by (simp add: collect_def collect_schemas_returns)
  then show "accounts_for env database (table_visits database db_tables)
           (st\<lparr>config := set_max_overflow (config st)\<rparr>, [])
           (fst (collect env st database db_tables))"
    unfolding collect_def table_visits_def by (rule accounts_for_schemas)
qed

lemma outcomes_partition:
  "length outs = length (requests_of outs) + length (filter (\<lambda>out. out = Skipped) outs)
      + length (filter (\<lambda>out. out = Declined) outs)"
proof (induction outs)
  case Nil
  show ?case by simp
next
  case (Cons out outs)
  then show ?case by (cases out) simp_all
qed

lemma example_collect:
  "collect example_env example_state example_database example_tables
    = ((example_state
          \<lparr>config := example_config\<lparr>options := [''max_overflow'' \<mapsto> PyInt 10]\<rparr>,
           report := \<lparr>profiling_skipped_other = [''PUBLIC'' \<mapsto> 1],
                      entities_profiled = [''DB.PUBLIC.T'']\<rparr>,
           logged := [(INFO, ''Skipping profiling of external table DB.PUBLIC.EXT'')]\<rparr>,
        [example_request (example_table ''T'' ''TABLE'' (Some 5)) ''PUBLIC'' ''DB'']), None)"
  by (simp add: collect_def example_database_def example_tables_def collect_table_def
      is_skipped_external_def example_state_def example_config_def example_profiling_def
      example_table_def example_env_def example_request_def set_max_overflow_def setdefault_def
      counter_incr_def counter_get_def skip_message_def)

text \<open>
  C1 as stated does not hold: \<^verbatim>\<open>get_profile_request\<close> may return \<^verbatim>\<open>None\<close>, and then
  the table gets neither a request nor a recorded skip. Here the one table of the
  catalog is visited, and the pass ends with the report, the log and the calls of the
  batch execution as they were, and without a work unit.
\<close>

theorem declined_table_counterexample:
  "get_workunits declining_env example_state example_database
      [''PUBLIC'' \<mapsto> [example_table ''T'' ''TABLE'' (Some 5)]]
    = (example_state\<lparr>config := example_config\<lparr>options := [''max_overflow'' \<mapsto> PyInt 10]\<rparr>\<rparr>,
       Inr [])
   \<and> table_visits example_database [''PUBLIC'' \<mapsto> [example_table ''T'' ''TABLE'' (Some 5)]]
       = [(\<lparr>s_name = ''PUBLIC''\<rparr>, example_table ''T'' ''TABLE'' (Some 5))]"
  by (simp add: get_workunits_def collect_def example_database_def collect_table_def
      is_skipped_external_def example_state_def example_config_def example_profiling_def
      example_table_def example_env_def declining_env_def set_max_overflow_def setdefault_def
      table_visits_def)

text \<open>
  C1, amended. In a pass in which every schema has its entry in \<^verbatim>\<open>db_tables\<close>, every
  visited table has exactly one of three outcomes. An external table excluded by the
  configuration is a recorded skip: the counter of its schema grows by one. Another
  table for which \<^verbatim>\<open>get_profile_request\<close> returns a request has that request appended
  to the pending list, in the order of the visits, and is reported as profiled. A table
  for which \<^verbatim>\<open>get_profile_request\<close> returns \<^verbatim>\<open>None\<close> gets neither. The pending list
  and the counters hold nothing else.
\<close>

theorem every_table_accounted:
  fixes env :: "'wu collaborators" and st :: profiler_state
  assumes "\<forall>schema \<in> set (schemas database). db_tables (s_name schema) \<noteq> None"
  defines "visits \<equiv> table_visits database db_tables"
  defines "outs \<equiv> map (outcome_of env (profiling (config st)) database) visits"
  shows "\<exists>st' reqs. collect env st database db_tables = ((st', reqs), None)
      \<and> reqs = requests_of outs
      \<and> entities_profiled (report st') = entities_profiled (report st) @ map pretty_name reqs
      \<and> (\<forall>k. counter_get (profiling_skipped_other (report st')) k
               = counter_get (profiling_skipped_other (report st)) k
                 + int (skips_under env (profiling (config st)) database k visits))
      \<and> length visits = length reqs + length (filter (\<lambda>out. out = Skipped) outs)
               + length (filter (\<lambda>out. out = Declined) outs)"
proof -
  obtain st' reqs e where c: "collect env st database db_tables = ((st', reqs), e)"
    by (metis prod.collapse)
  from accounts_for_collect [OF assms(1), of env st] c
  have e: "e = None"
    and a: "accounts_for env database visits (st\<lparr>config := set_max_overflow (config st)\<rparr>, [])
              (st', reqs)"
    by (simp_all add: visits_def)
  have r: "reqs = requests_of outs"
    using a by (simp add: accounts_for_def Let_def outs_def)
  have p: "entities_profiled (report st') = entities_profiled (report st) @ map pretty_name reqs"
    using a by (simp add: accounts_for_def Let_def outs_def)
  have k: "\<forall>k. counter_get (profiling_skipped_other (report st')) k
               = counter_get (profiling_skipped_other (report st)) k
                 + int (skips_under env (profiling (config st)) database k visits)"
    using a by (simp add: accounts_for_def Let_def)
  have "length visits = length outs" by (simp add: outs_def)
  then have l: "length visits = length reqs + length (filter (\<lambda>out. out = Skipped) outs)
               + length (filter (\<lambda>out. out = Declined) outs)"
    using outcomes_partition [of outs] by (simp only: r)
  from c e r p k l show ?thesis by blast
qed

theorem every_table_accounted_witness:
  "collect example_env example_state example_database example_tables
    = ((example_state
          \<lparr>config := example_config\<lparr>options := [''max_overflow'' \<mapsto> PyInt 10]\<rparr>,
           report := \<lparr>profiling_skipped_other = [''PUBLIC'' \<mapsto> 1],
                      entities_profiled = [''DB.PUBLIC.T'']\<rparr>,
           logged := [(INFO, ''Skipping profiling of external table DB.PUBLIC.EXT'')]\<rparr>,
        [example_request (example_table ''T'' ''TABLE'' (Some 5)) ''PUBLIC'' ''DB'']), None)
   \<and> length (table_visits example_database example_tables) = 2"
proof -
  have h: "\<forall>schema \<in> set (schemas example_database). example_tables (s_name schema) \<noteq> None"
    by (simp add: example_database_def example_tables_def)
  have v: "length (table_visits example_database example_tables) = 2"
    by (simp add: table_visits_def example_database_def example_tables_def)
  from every_table_accounted [OF h, of example_env example_state]
  obtain st' reqs where
    "collect example_env example_state example_database example_tables = ((st', reqs), None)"
    by blast
  with v show ?thesis
    by (simp add: example_collect)
qed

subsection \<open>External tables that the configuration excludes\<close>


















section \<open>Connections\<close>

text \<open>
  C9. A connection that the closure of \<^verbatim>\<open>callable_for_db_connection(db_name)\<close> returns
  is the one that \<^verbatim>\<open>config.get_connection()\<close> established, on which the statement
  \<^verbatim>\<open>use_database(db_name)\<close> has then been executed, as the last statement so far.
\<close>

theorem use_database_executed:
  assumes "callable_for_db_connection env db_name st = (st', Inr conn)"
  shows "\<exists>conn0. get_connection env (config st) = Inr conn0
       \<and> statement_error env conn0 (use_database env db_name) = None
       \<and> conn = conn0\<lparr>executed := executed conn0 @ [use_database env db_name]\<rparr>
       \<and> connection_attempts st' = connection_attempts st + 1"
  using assms
  by (auto simp: callable_for_db_connection_def cursor_execute_def Let_def
      split: sum.splits option.splits)

theorem use_database_executed_witness:
  \<open>callable_for_db_connection example_env ''DB'' example_state
     = (example_state\<lparr>connection_attempts := 1\<rparr>,
        Inr \<lparr>session = ''session-1'', executed = [''use database "DB"'']\<rparr>)
   \<and> get_connection example_env (config example_state)
     = Inr \<lparr>session = ''session-1'', executed = []\<rparr>\<close>
proof -
  have h: \<open>callable_for_db_connection example_env ''DB'' example_state
     = (example_state\<lparr>connection_attempts := 1\<rparr>,
        Inr \<lparr>session = ''session-1'', executed = [''use database "DB"'']\<rparr>)\<close>
    by (simp add: callable_for_db_connection_def cursor_execute_def example_env_def
      example_state_def)
  from use_database_executed [OF h] h show ?thesis
    by (simp add: example_env_def)
qed

text \<open>
  C10. \<^verbatim>\<open>get_profiler_instance\<close> needs a database name: without one (\<^verbatim>\<open>None\<close>, the
  default, or the empty string) it fails on its assertion with the state untouched, so
  before any connection is attempted; a profiler instance is only ever built for a name
  that is not empty.
\<close>

theorem db_name_required:
  "get_profiler_instance env st None = (st, Inl AssertionError)
   \<and> get_profiler_instance env st (Some '''') = (st, Inl AssertionError)
   \<and> (\<forall>st' p. get_profiler_instance env st db_name = (st', Inr p)
         \<longrightarrow> (\<exists>name. db_name = Some name \<and> name \<noteq> ''''))"
  by (cases db_name) (auto simp: get_profiler_instance_def truthy_str_def split: if_splits)

theorem db_name_required_witness:
  \<open>get_profiler_instance example_env example_state (Some ''DB'')
     = (example_state\<lparr>logged := [(DEBUG, ''sql_alchemy_url=snowflake://DB'')],
                       connection_attempts := 1\<rparr>,
        Inr \<lparr>ge_conn = \<lparr>session = ''session-1'', executed = [''use database "DB"'']\<rparr>,
             ge_config = example_profiling, ge_platform = ''snowflake''\<rparr>)
   \<and> get_profiler_instance example_env example_state None = (example_state, Inl AssertionError)
   \<and> get_profiler_instance example_env example_state (Some '''')
       = (example_state, Inl AssertionError)\<close>
proof -
  have \<open>get_profiler_instance example_env example_state (Some ''DB'')
     = (example_state\<lparr>logged := [(DEBUG, ''sql_alchemy_url=snowflake://DB'')],
                       connection_attempts := 1\<rparr>,
        Inr \<lparr>ge_conn = \<lparr>session = ''session-1'', executed = [''use database "DB"'']\<rparr>,
             ge_config = example_profiling, ge_platform = ''snowflake''\<rparr>)\<close>
    by (simp add: get_profiler_instance_def truthy_str_def callable_for_db_connection_def
      cursor_execute_def example_env_def example_state_def example_config_def)
  with db_name_required [of example_env example_state "Some ''DB''"] show ?thesis
    by simp
qed

end
